theory Spec2Isabelle
  imports Complex_Main "HOL-Library.Word" "HOL-Library.Monad_Syntax"
begin

section \<open>JavaScript numbers as the encoders see them\<close>

text \<open>
  A sample of a \<^verbatim>\<open>Float32Array\<close> is a finite value, an infinity or NaN. Finite values
  are modelled as reals: the encoders only compare a sample with a clamp bound, multiply
  it by 32768 or 32767 and truncate. On the 24-bit significand of a sample these
  products are exact in double precision, and the rounding of the constant 0.95 changes
  neither a comparison with a sample nor the truncated product of the bound itself.
\<close>

datatype number = Fin real | PInf | NInf | NaN

text \<open>\<^verbatim>\<open>Math.min\<close> and \<^verbatim>\<open>Math.max\<close>: NaN if either argument is NaN.\<close>

fun math_min :: "number \<Rightarrow> number \<Rightarrow> number" where
  "math_min NaN b = NaN"
| "math_min a NaN = NaN"
| "math_min NInf b = NInf"
| "math_min a NInf = NInf"
| "math_min PInf b = b"
| "math_min a PInf = a"
| "math_min (Fin x) (Fin y) = Fin (min x y)"

fun math_max :: "number \<Rightarrow> number \<Rightarrow> number" where
  "math_max NaN b = NaN"
| "math_max a NaN = NaN"
| "math_max PInf b = PInf"
| "math_max a PInf = PInf"
| "math_max NInf b = b"
| "math_max a NInf = a"
| "math_max (Fin x) (Fin y) = Fin (max x y)"

text \<open>The comparison \<^verbatim>\<open>s < 0\<close>: false on NaN.\<close>

fun is_neg :: "number \<Rightarrow> bool" where
  "is_neg (Fin x) = (x < 0)"
| "is_neg NInf = True"
| "is_neg PInf = False"
| "is_neg NaN = False"

text \<open>The product \<^verbatim>\<open>s * k\<close> with a finite constant \<open>k\<close>.\<close>

fun scale :: "number \<Rightarrow> real \<Rightarrow> number" where
  "scale (Fin x) k = Fin (x * k)"
| "scale PInf k = (if 0 < k then PInf else if k < 0 then NInf else NaN)"
| "scale NInf k = (if 0 < k then NInf else if k < 0 then PInf else NaN)"
| "scale NaN k = NaN"

text \<open>
  Storing a number as a 16-bit integer (\<^verbatim>\<open>DataView.setInt16\<close>, an \<^verbatim>\<open>Int16Array\<close>
  element): NaN and the infinities become 0, a finite value is truncated towards zero
  and reduced modulo \<open>2^16\<close>.
\<close>

definition trunc :: "real \<Rightarrow> int" where
  "trunc x = (if x < 0 then \<lceil>x\<rceil> else \<lfloor>x\<rfloor>)"

fun to_int16 :: "number \<Rightarrow> 16 word" where
  "to_int16 (Fin x) = word_of_int (trunc x)"
| "to_int16 PInf = 0"
| "to_int16 NInf = 0"
| "to_int16 NaN = 0"

text \<open>Reading a typed array: an index past the end gives \<^verbatim>\<open>undefined\<close>, which the
  arithmetic that follows turns into NaN.\<close>

definition f32_at :: "number list \<Rightarrow> nat \<Rightarrow> number" where
  "f32_at xs i = (if i < length xs then xs ! i else NaN)"

section \<open>Audio buffers and blobs\<close>

record AudioBuffer =
  sampleRate :: nat
  frames :: nat
  channelData :: "number list list"

definition numberOfChannels :: "AudioBuffer \<Rightarrow> nat" where
  "numberOfChannels b = length (channelData b)"

text \<open>\<^verbatim>\<open>getChannelData\<close> raises IndexSizeError on a channel the buffer does not have.\<close>

definition getChannelData :: "AudioBuffer \<Rightarrow> nat \<Rightarrow> number list option" where
  "getChannelData b c = (if c < numberOfChannels b then Some (channelData b ! c) else None)"

definition duration :: "AudioBuffer \<Rightarrow> real" where
  "duration b = real (frames b) / real (sampleRate b)"

text \<open>The invariant of every buffer the platform hands out: at least one channel, at
  least one frame, a positive rate, and every channel as long as the buffer.\<close>

definition wf_buffer :: "AudioBuffer \<Rightarrow> bool" where
  "wf_buffer b \<longleftrightarrow>
     0 < sampleRate b \<and> 0 < frames b \<and> channelData b \<noteq> [] \<and>
     list_all (\<lambda>ch. length ch = frames b) (channelData b)"

type_synonym byte = "8 word"

record Blob =
  bytes :: "byte list"
  mime :: string

section \<open>DataView\<close>

text \<open>
  A \<^verbatim>\<open>DataView\<close> over a fresh \<^verbatim>\<open>ArrayBuffer\<close> is a list of bytes, zero at first. Every
  setter raises RangeError (here \<open>None\<close>) when the bytes it writes do not fit, and
  writes nothing then.
\<close>

type_synonym view = "byte list"

definition new_view :: "nat \<Rightarrow> view" where
  "new_view n = replicate n 0"

definition setBytes :: "view \<Rightarrow> nat \<Rightarrow> byte list \<Rightarrow> view option" where
  "setBytes v off bs =
     (if off + length bs \<le> length v
      then Some (take off v @ bs @ drop (off + length bs) v) else None)"

definition u16le :: "nat \<Rightarrow> byte list" where
  "u16le n = (let w = (word_of_nat n :: 16 word) in [ucast w, ucast (drop_bit 8 w)])"

definition u32le :: "nat \<Rightarrow> byte list" where
  "u32le n = (let w = (word_of_nat n :: 32 word)
              in [ucast w, ucast (drop_bit 8 w), ucast (drop_bit 16 w), ucast (drop_bit 24 w)])"

definition i16le :: "16 word \<Rightarrow> byte list" where
  "i16le w = [ucast w, ucast (drop_bit 8 w)]"

definition setUint8 :: "view \<Rightarrow> nat \<Rightarrow> nat \<Rightarrow> view option" where
  "setUint8 v off n = setBytes v off [word_of_nat n]"

text \<open>The three setters below are always called with \<^verbatim>\<open>littleEndian = true\<close>.\<close>

definition setUint16 :: "view \<Rightarrow> nat \<Rightarrow> nat \<Rightarrow> view option" where
  "setUint16 v off n = setBytes v off (u16le n)"

definition setUint32 :: "view \<Rightarrow> nat \<Rightarrow> nat \<Rightarrow> view option" where
  "setUint32 v off n = setBytes v off (u32le n)"

definition setInt16 :: "view \<Rightarrow> nat \<Rightarrow> number \<Rightarrow> view option" where
  "setInt16 v off x = setBytes v off (i16le (to_int16 x))"

text \<open>\<^verbatim>\<open>getInt16(off, true)\<close>, to read an encoded sample back.\<close>

definition getInt16 :: "view \<Rightarrow> nat \<Rightarrow> int" where
  "getInt16 v off = sint (word_cat (v ! (off + 1)) (v ! off) :: 16 word)"

text \<open>The local helper \<^verbatim>\<open>writeString\<close> of both encoders: one byte per character, from
  \<open>offset\<close> on.\<close>

fun writeString :: "view \<Rightarrow> nat \<Rightarrow> string \<Rightarrow> view option" where
  "writeString v offset [] = Some v"
| "writeString v offset (c # cs) =
     do { v' \<leftarrow> setUint8 v offset (of_char c); writeString v' (offset + 1) cs }"

text \<open>A counting loop \<^verbatim>\<open>for (i = a; i < b; i++)\<close> over a state, stopping at the first
  exception.\<close>

primrec for_loop :: "nat list \<Rightarrow> (nat \<Rightarrow> 's \<Rightarrow> 's option) \<Rightarrow> 's \<Rightarrow> 's option" where
  "for_loop [] body s = Some s"
| "for_loop (i # is) body s = (case body i s of None \<Rightarrow> None | Some s' \<Rightarrow> for_loop is body s')"

section \<open>The PCM container encoder of the mastering engine\<close>

definition audioBufferToWav :: "AudioBuffer \<Rightarrow> Blob option" where
  "audioBufferToWav buffer = do {
     let numChannels = numberOfChannels buffer;
     let sampleRate = sampleRate buffer;
     let format = 1;
     let bitDepth = 16;
     let bytesPerSample = bitDepth div 8;
     let blockAlign = numChannels * bytesPerSample;
     data0 \<leftarrow> getChannelData buffer 0;
     let dataLength = length data0;
     let bufferLength = 44 + dataLength * numChannels * bytesPerSample;
     let view = new_view bufferLength;
     view \<leftarrow> writeString view 0 ''RIFF'';
     view \<leftarrow> setUint32 view 4 (36 + dataLength * numChannels * bytesPerSample);
     view \<leftarrow> writeString view 8 ''WAVE'';
     view \<leftarrow> writeString view 12 ''fmt '';
     view \<leftarrow> setUint32 view 16 16;
     view \<leftarrow> setUint16 view 20 format;
     view \<leftarrow> setUint16 view 22 numChannels;
     view \<leftarrow> setUint32 view 24 sampleRate;
     view \<leftarrow> setUint32 view 28 (sampleRate * blockAlign);
     view \<leftarrow> setUint16 view 32 blockAlign;
     view \<leftarrow> setUint16 view 34 bitDepth;
     view \<leftarrow> writeString view 36 ''data'';
     view \<leftarrow> setUint32 view 40 (dataLength * numChannels * bytesPerSample);
     (view, offset) \<leftarrow>
       for_loop [0..<dataLength] (\<lambda>i.
         for_loop [0..<numChannels] (\<lambda>channel (view, offset). do {
           chan \<leftarrow> getChannelData buffer channel;
           let sample = f32_at chan i;
           let s = math_max (Fin (- 0.95)) (math_min (Fin 0.95) sample);
           let s = (if is_neg s then scale s 32768 else scale s 32767);
           view \<leftarrow> setInt16 view offset s;
           Some (view, offset + 2)
         })) (view, 44);
     Some \<lparr>bytes = view, mime = ''audio/wav''\<rparr>
   }"

section \<open>The minimal mono encoder of the analysis pre-processor\<close>

definition bufferToWavBlob :: "AudioBuffer \<Rightarrow> Blob option" where
  "bufferToWavBlob buffer = do {
     let numChannels = 1;
     let sampleRate = sampleRate buffer;
     let format = 1;
     let bitDepth = 16;
     data \<leftarrow> getChannelData buffer 0;
     let bytesPerSample = bitDepth div 8;
     let blockAlign = numChannels * bytesPerSample;
     let wavDataLength = length data * bytesPerSample;
     let bufferLength = 44 + wavDataLength;
     let view = new_view bufferLength;
     view \<leftarrow> writeString view 0 ''RIFF'';
     view \<leftarrow> setUint32 view 4 (36 + wavDataLength);
     view \<leftarrow> writeString view 8 ''WAVE'';
     view \<leftarrow> writeString view 12 ''fmt '';
     view \<leftarrow> setUint32 view 16 16;
     view \<leftarrow> setUint16 view 20 format;
     view \<leftarrow> setUint16 view 22 numChannels;
     view \<leftarrow> setUint32 view 24 sampleRate;
     view \<leftarrow> setUint32 view 28 (sampleRate * blockAlign);
     view \<leftarrow> setUint16 view 32 blockAlign;
     view \<leftarrow> setUint16 view 34 bitDepth;
     view \<leftarrow> writeString view 36 ''data'';
     view \<leftarrow> setUint32 view 40 wavDataLength;
     (view, offset) \<leftarrow>
       for_loop [0..<length data] (\<lambda>i (view, offset). do {
         let s = math_max (Fin (- 1)) (math_min (Fin 1) (f32_at data i));
         let val = (if is_neg s then scale s 32768 else scale s 32767);
         view \<leftarrow> setInt16 view offset val;
         Some (view, offset + 2)
       }) (view, 44);
     Some \<lparr>bytes = view, mime = ''audio/wav''\<rparr>
   }"

section \<open>The offline render graph\<close>

text \<open>
  The Web Audio graph is platform state that the program changes through calls. An
  offline context is modelled by its three constructor arguments, a counter that names
  the nodes, and the calls made on it and on its nodes, in order. Node 0 is the
  context's destination.
\<close>

datatype node_kind =
    GainNode | BiquadFilterNode | DelayNode | OscillatorNode
  | ChannelSplitterNode nat | ChannelMergerNode nat
  | DynamicsCompressorNode | WaveShaperNode | AudioBufferSourceNode

text \<open>What \<^verbatim>\<open>connect\<close> is given: an input of a node, or a parameter of a node
  (\<^verbatim>\<open>delayL.delayTime\<close>, \<^verbatim>\<open>f.frequency\<close>).\<close>

datatype target = Input nat nat | Param nat string

datatype graph_call =
    Create node_kind
  | SetType nat string
  | SetValue nat string real
  | SetValueAtTime nat string real real
  | LinearRampToValueAtTime nat string real real
  | SetCurve nat "real list"
  | SetBuffer nat AudioBuffer
  | Connect nat nat target
  | Start nat

record OfflineAudioContext =
  ctx_channels :: nat
  ctx_length :: nat
  ctx_sampleRate :: nat
  next_id :: nat
  calls :: "graph_call list"

text \<open>What a rejected promise carries: a platform exception with its name, the error
  event of a \<^verbatim>\<open>FileReader\<close>, an \<^verbatim>\<open>Error\<close> with its message, or an exception raised
  inside an encoder (the \<open>None\<close> of the encoders above).\<close>

datatype error = DOMException string | ProgressEvent | Error string | EncoderException

text \<open>\<^verbatim>\<open>new OfflineAudioContext(numberOfChannels, length, sampleRate)\<close> raises
  NotSupportedError on no channel or on a length of 0; the two rates the program uses,
  16000 and 48000, are in the range every implementation accepts.\<close>

definition new_OfflineAudioContext :: "nat \<Rightarrow> nat \<Rightarrow> nat \<Rightarrow> error + OfflineAudioContext" where
  "new_OfflineAudioContext n_channels n_frames sample_rate =
     (if n_channels = 0 \<or> n_frames = 0 then Inl (DOMException ''NotSupportedError'')
      else Inr \<lparr>ctx_channels = n_channels, ctx_length = n_frames, ctx_sampleRate = sample_rate,
                next_id = 1, calls = []\<rparr>)"

definition destination :: nat where
  "destination = 0"

definition call :: "graph_call \<Rightarrow> OfflineAudioContext \<Rightarrow> OfflineAudioContext" where
  "call c ctx = ctx\<lparr>calls := calls ctx @ [c]\<rparr>"

definition create :: "node_kind \<Rightarrow> OfflineAudioContext \<Rightarrow> nat \<times> OfflineAudioContext" where
  "create k ctx = (next_id ctx, call (Create k) (ctx\<lparr>next_id := next_id ctx + 1\<rparr>))"

definition createGain :: "OfflineAudioContext \<Rightarrow> nat \<times> OfflineAudioContext" where
  "createGain = create GainNode"

definition createBiquadFilter :: "OfflineAudioContext \<Rightarrow> nat \<times> OfflineAudioContext" where
  "createBiquadFilter = create BiquadFilterNode"

definition createDelay :: "OfflineAudioContext \<Rightarrow> nat \<times> OfflineAudioContext" where
  "createDelay = create DelayNode"

definition createOscillator :: "OfflineAudioContext \<Rightarrow> nat \<times> OfflineAudioContext" where
  "createOscillator = create OscillatorNode"

definition createChannelSplitter :: "nat \<Rightarrow> OfflineAudioContext \<Rightarrow> nat \<times> OfflineAudioContext" where
  "createChannelSplitter n = create (ChannelSplitterNode n)"

definition createChannelMerger :: "nat \<Rightarrow> OfflineAudioContext \<Rightarrow> nat \<times> OfflineAudioContext" where
  "createChannelMerger n = create (ChannelMergerNode n)"

definition createDynamicsCompressor :: "OfflineAudioContext \<Rightarrow> nat \<times> OfflineAudioContext" where
  "createDynamicsCompressor = create DynamicsCompressorNode"

definition createWaveShaper :: "OfflineAudioContext \<Rightarrow> nat \<times> OfflineAudioContext" where
  "createWaveShaper = create WaveShaperNode"

definition createBufferSource :: "OfflineAudioContext \<Rightarrow> nat \<times> OfflineAudioContext" where
  "createBufferSource = create AudioBufferSourceNode"

text \<open>\<^verbatim>\<open>a.connect(b)\<close>, \<^verbatim>\<open>a.connect(b, output)\<close>, \<^verbatim>\<open>a.connect(b, output, input)\<close> and
  \<^verbatim>\<open>a.connect(param)\<close>.\<close>

definition connect :: "nat \<Rightarrow> nat \<Rightarrow> OfflineAudioContext \<Rightarrow> OfflineAudioContext" where
  "connect a b = call (Connect a 0 (Input b 0))"

definition connect_out :: "nat \<Rightarrow> nat \<Rightarrow> nat \<Rightarrow> OfflineAudioContext \<Rightarrow> OfflineAudioContext" where
  "connect_out a b output = call (Connect a output (Input b 0))"

definition connect_out_in ::
  "nat \<Rightarrow> nat \<Rightarrow> nat \<Rightarrow> nat \<Rightarrow> OfflineAudioContext \<Rightarrow> OfflineAudioContext" where
  "connect_out_in a b output input = call (Connect a output (Input b input))"

definition connect_param :: "nat \<Rightarrow> nat \<Rightarrow> string \<Rightarrow> OfflineAudioContext \<Rightarrow> OfflineAudioContext" where
  "connect_param a b param = call (Connect a 0 (Param b param))"

definition set_value :: "nat \<Rightarrow> string \<Rightarrow> real \<Rightarrow> OfflineAudioContext \<Rightarrow> OfflineAudioContext" where
  "set_value n param v = call (SetValue n param v)"

definition set_type :: "nat \<Rightarrow> string \<Rightarrow> OfflineAudioContext \<Rightarrow> OfflineAudioContext" where
  "set_type n t = call (SetType n t)"

definition start :: "nat \<Rightarrow> OfflineAudioContext \<Rightarrow> OfflineAudioContext" where
  "start n = call (Start n)"

definition setValueAtTime ::
  "nat \<Rightarrow> string \<Rightarrow> real \<Rightarrow> real \<Rightarrow> OfflineAudioContext \<Rightarrow> OfflineAudioContext" where
  "setValueAtTime n param v t = call (SetValueAtTime n param v t)"

definition linearRampToValueAtTime ::
  "nat \<Rightarrow> string \<Rightarrow> real \<Rightarrow> real \<Rightarrow> OfflineAudioContext \<Rightarrow> OfflineAudioContext" where
  "linearRampToValueAtTime n param v t = call (LinearRampToValueAtTime n param v t)"

section \<open>The waveshaping curve\<close>

definition makeSilkCurve :: "real list" where
  "makeSilkCurve =
     (let n_samples = 48000
      in map (\<lambda>i.
           let x = (real i * 2) / real n_samples - 1
           in if \<bar>x\<bar> < 0.7 then x
              else (let sign = (if x < 0 then - 1 else 1); xabs = \<bar>x\<bar>
                    in sign * (0.7 + tanh (xabs - 0.7) * 0.25)))
         [0..<n_samples])"

section \<open>Creative effect helpers\<close>

definition createChorus :: "OfflineAudioContext \<Rightarrow> nat \<Rightarrow> real \<Rightarrow> nat \<times> OfflineAudioContext" where
  "createChorus ctx input intensity =
     (if intensity \<le> 0 then (input, ctx)
      else
        let (splitter, ctx) = createChannelSplitter 2 ctx;
            (merger, ctx) = createChannelMerger 2 ctx;
            ctx = connect input splitter ctx;
            (delayL, ctx) = createDelay ctx;
            (delayR, ctx) = createDelay ctx;
            ctx = set_value delayL ''delayTime'' 0.02 ctx;
            ctx = set_value delayR ''delayTime'' 0.025 ctx;
            (osc, ctx) = createOscillator ctx;
            ctx = set_type osc ''sine'' ctx;
            ctx = set_value osc ''frequency'' 1.5 ctx;
            (gainL, ctx) = createGain ctx;
            (gainR, ctx) = createGain ctx;
            ctx = set_value gainL ''gain'' (0.002 * intensity) ctx;
            ctx = set_value gainR ''gain'' (- 0.002 * intensity) ctx;
            ctx = connect_param gainL delayL ''delayTime'' (connect osc gainL ctx);
            ctx = connect_param gainR delayR ''delayTime'' (connect osc gainR ctx);
            ctx = start osc ctx;
            ctx = connect_out splitter delayL 0 ctx;
            ctx = connect_out splitter delayR 1 ctx;
            ctx = connect_out_in delayL merger 0 0 ctx;
            ctx = connect_out_in delayR merger 0 1 ctx;
            (wetGain, ctx) = createGain ctx;
            ctx = set_value wetGain ''gain'' (0.5 * intensity) ctx;
            ctx = connect merger wetGain ctx;
            ctx = connect input wetGain ctx
        in (wetGain, ctx))"

text \<open>The loop of \<^verbatim>\<open>createPhaser\<close> that chains the all-pass stages; its state is the
  current node, the filters pushed so far and the context.\<close>

definition phaser_stage ::
  "nat \<times> nat list \<times> OfflineAudioContext \<Rightarrow> nat \<times> nat list \<times> OfflineAudioContext" where
  "phaser_stage s =
     (let (node, filters, ctx) = s;
          (filter, ctx) = createBiquadFilter ctx;
          ctx = set_type filter ''allpass'' ctx;
          ctx = set_value filter ''frequency'' 1000 ctx;
          ctx = connect node filter ctx
      in (filter, filters @ [filter], ctx))"

definition createPhaser :: "OfflineAudioContext \<Rightarrow> nat \<Rightarrow> real \<Rightarrow> nat \<times> OfflineAudioContext" where
  "createPhaser ctx input intensity =
     (if intensity \<le> 0 then (input, ctx)
      else
        let stages = 4;
            (node, filters, ctx) = fold (\<lambda>i. phaser_stage) [0..<stages] (input, [], ctx);
            (lfo, ctx) = createOscillator ctx;
            ctx = set_type lfo ''triangle'' ctx;
            ctx = set_value lfo ''frequency'' 0.5 ctx;
            (lfoGain, ctx) = createGain ctx;
            ctx = set_value lfoGain ''gain'' (800 * intensity) ctx;
            ctx = connect lfo lfoGain ctx;
            ctx = fold (\<lambda>f. connect_param lfoGain f ''frequency'') filters ctx;
            ctx = start lfo ctx;
            (mix, ctx) = createGain ctx;
            ctx = connect node mix ctx;
            ctx = connect input mix ctx;
            (feedback, ctx) = createGain ctx;
            ctx = set_value feedback ''gain'' (0.4 * intensity) ctx;
            ctx = connect node feedback ctx;
            ctx = connect feedback (filters ! 0) ctx
        in (mix, ctx))"

definition createFlanger :: "OfflineAudioContext \<Rightarrow> nat \<Rightarrow> real \<Rightarrow> nat \<times> OfflineAudioContext" where
  "createFlanger ctx input intensity =
     (if intensity \<le> 0 then (input, ctx)
      else
        let (delay, ctx) = createDelay ctx;
            ctx = set_value delay ''delayTime'' 0.003 ctx;
            (feedback, ctx) = createGain ctx;
            ctx = set_value feedback ''gain'' (0.5 * intensity) ctx;
            (lfo, ctx) = createOscillator ctx;
            ctx = set_value lfo ''frequency'' 0.3 ctx;
            (lfoGain, ctx) = createGain ctx;
            ctx = set_value lfoGain ''gain'' (0.002 * intensity) ctx;
            ctx = connect_param lfoGain delay ''delayTime'' (connect lfo lfoGain ctx);
            ctx = start lfo ctx;
            ctx = connect input delay ctx;
            ctx = connect delay feedback ctx;
            ctx = connect feedback delay ctx;
            (wet, ctx) = createGain ctx;
            ctx = set_value wet ''gain'' 0.5 ctx;
            ctx = connect delay wet ctx;
            ctx = connect input wet ctx
        in (wet, ctx))"

section \<open>The mastering chain\<close>

datatype Intensity = Low | Medium | High

datatype StereoWidth = Normal | Wide

datatype ExportFormat = Mp3 | Wav

datatype MasteringPreset = Balanced | Pop | Electronic | Rock | Lofi

record CreativeFx =
  chorus :: real
  phaser :: real
  flanger :: real

record AudioProcessOptions =
  intensity :: Intensity
  stereoWidth :: StereoWidth
  enableWarmth :: bool
  enableFades :: bool
  enableNaturalizer :: bool
  exportFormat :: ExportFormat
  preset :: "MasteringPreset option"
  creativeFx :: CreativeFx

record MasteringConfig =
  safetyHeadroom :: real
  compThreshold :: real
  compRatio :: real
  finalGain :: real

text \<open>The object \<^verbatim>\<open>config\<close> that \<^verbatim>\<open>processAudio\<close> derives from the options.\<close>

definition config :: "AudioProcessOptions \<Rightarrow> MasteringConfig" where
  "config options =
     \<lparr>safetyHeadroom = - 20.0,
      compThreshold = (if intensity options = High then - 28 else - 24),
      compRatio = (if intensity options = High then 2.5 else 1.5),
      finalGain = (if intensity options = High then 15.0 else 13.0)\<rparr>"

text \<open>
  The body of \<^verbatim>\<open>processAudio\<close> between the creation of the source node and
  \<^verbatim>\<open>startRendering\<close> is one straight run of graph calls; it is cut here at the
  section comments of the source (chain start, creative FX layer, naturalizer, tonal
  shaping, soft envelope, gain smoothing, final leveling, fades). Each part takes and
  returns the variable \<^verbatim>\<open>chain\<close> and the context.
\<close>

definition chain_start ::
  "MasteringConfig \<Rightarrow> nat \<Rightarrow> OfflineAudioContext \<Rightarrow> nat \<times> OfflineAudioContext" where
  "chain_start cfg source ctx =
     (let (inputNode, ctx) = createGain ctx;
          ctx = set_value inputNode ''gain'' (10 powr (safetyHeadroom cfg / 20)) ctx;
          ctx = connect source inputNode ctx;
          chain = inputNode;
          (hpf, ctx) = createBiquadFilter ctx;
          ctx = set_type hpf ''highpass'' ctx;
          ctx = set_value hpf ''frequency'' 85 ctx;
          ctx = set_value hpf ''Q'' 0.707 ctx;
          ctx = connect chain hpf ctx;
          chain = hpf
      in (chain, ctx))"

definition creative_fx_layer ::
  "AudioProcessOptions \<Rightarrow> nat \<times> OfflineAudioContext \<Rightarrow> nat \<times> OfflineAudioContext" where
  "creative_fx_layer options s =
     (let (chain, ctx) = s;
          (chain, ctx) = (if chorus (creativeFx options) > 0
                          then createChorus ctx chain (chorus (creativeFx options))
                          else (chain, ctx));
          (chain, ctx) = (if phaser (creativeFx options) > 0
                          then createPhaser ctx chain (phaser (creativeFx options))
                          else (chain, ctx));
          (chain, ctx) = (if flanger (creativeFx options) > 0
                          then createFlanger ctx chain (flanger (creativeFx options))
                          else (chain, ctx))
      in (chain, ctx))"

definition naturalizer ::
  "AudioProcessOptions \<Rightarrow> nat \<times> OfflineAudioContext \<Rightarrow> nat \<times> OfflineAudioContext" where
  "naturalizer options s =
     (let (chain, ctx) = s
      in if enableNaturalizer options then
           let (notch1, ctx) = createBiquadFilter ctx;
               ctx = set_type notch1 ''peaking'' ctx;
               ctx = set_value notch1 ''frequency'' 2800 ctx;
               ctx = set_value notch1 ''Q'' 4.0 ctx;
               ctx = set_value notch1 ''gain'' (- 5.0) ctx;
               (notch2, ctx) = createBiquadFilter ctx;
               ctx = set_type notch2 ''peaking'' ctx;
               ctx = set_value notch2 ''frequency'' 4500 ctx;
               ctx = set_value notch2 ''Q'' 5.0 ctx;
               ctx = set_value notch2 ''gain'' (- 5.5) ctx;
               (notch3, ctx) = createBiquadFilter ctx;
               ctx = set_type notch3 ''peaking'' ctx;
               ctx = set_value notch3 ''frequency'' 6200 ctx;
               ctx = set_value notch3 ''Q'' 6.0 ctx;
               ctx = set_value notch3 ''gain'' (- 4.0) ctx;
               (silkTilt, ctx) = createBiquadFilter ctx;
               ctx = set_type silkTilt ''highshelf'' ctx;
               ctx = set_value silkTilt ''frequency'' 8500 ctx;
               ctx = set_value silkTilt ''gain'' (- 5.0) ctx;
               ctx = connect chain notch1 ctx;
               ctx = connect notch1 notch2 ctx;
               ctx = connect notch2 notch3 ctx;
               ctx = connect notch3 silkTilt ctx
           in (silkTilt, ctx)
         else (chain, ctx))"

definition tonal_shaping ::
  "AudioProcessOptions \<Rightarrow> nat \<times> OfflineAudioContext \<Rightarrow> nat \<times> OfflineAudioContext" where
  "tonal_shaping options s =
     (let (chain, ctx) = s;
          (lowShelf, ctx) = createBiquadFilter ctx;
          ctx = set_type lowShelf ''lowshelf'' ctx;
          ctx = set_value lowShelf ''frequency'' 180 ctx;
          ctx = set_value lowShelf ''gain'' (if preset options = Some Electronic then 1.5 else 0.5) ctx;
          (highShelf, ctx) = createBiquadFilter ctx;
          ctx = set_type highShelf ''highshelf'' ctx;
          ctx = set_value highShelf ''frequency'' 11000 ctx;
          ctx = set_value highShelf ''gain'' (if preset options = Some Pop then 1.5 else 0.5) ctx;
          ctx = connect chain lowShelf ctx;
          ctx = connect lowShelf highShelf ctx
      in (highShelf, ctx))"

definition soft_envelope ::
  "MasteringConfig \<Rightarrow> nat \<times> OfflineAudioContext \<Rightarrow> nat \<times> OfflineAudioContext" where
  "soft_envelope cfg s =
     (let (chain, ctx) = s;
          (comp, ctx) = createDynamicsCompressor ctx;
          ctx = set_value comp ''threshold'' (compThreshold cfg) ctx;
          ctx = set_value comp ''knee'' 35 ctx;
          ctx = set_value comp ''ratio'' (compRatio cfg) ctx;
          ctx = set_value comp ''attack'' 0.040 ctx;
          ctx = set_value comp ''release'' 0.250 ctx;
          ctx = connect chain comp ctx
      in (comp, ctx))"

definition gain_smoothing ::
  "AudioProcessOptions \<Rightarrow> nat \<times> OfflineAudioContext \<Rightarrow> nat \<times> OfflineAudioContext" where
  "gain_smoothing options s =
     (let (chain, ctx) = s
      in if enableWarmth options then
           let (clipper, ctx) = createWaveShaper ctx;
               ctx = call (SetCurve clipper makeSilkCurve) ctx;
               ctx = connect chain clipper ctx
           in (clipper, ctx)
         else (chain, ctx))"

definition final_leveling ::
  "MasteringConfig \<Rightarrow> nat \<times> OfflineAudioContext \<Rightarrow> nat \<times> OfflineAudioContext" where
  "final_leveling cfg s =
     (let (chain, ctx) = s;
          (makeup, ctx) = createGain ctx;
          ctx = set_value makeup ''gain'' (10 powr (finalGain cfg / 20)) ctx;
          ctx = connect chain makeup ctx;
          (limiter, ctx) = createDynamicsCompressor ctx;
          ctx = set_value limiter ''threshold'' (- 2.0) ctx;
          ctx = set_value limiter ''knee'' 0 ctx;
          ctx = set_value limiter ''ratio'' 20 ctx;
          ctx = set_value limiter ''attack'' 0.001 ctx;
          ctx = set_value limiter ''release'' 0.15 ctx;
          ctx = connect makeup limiter ctx
      in (limiter, ctx))"

definition fades ::
  "AudioProcessOptions \<Rightarrow> AudioBuffer \<Rightarrow> nat \<times> OfflineAudioContext \<Rightarrow> nat \<times> OfflineAudioContext" where
  "fades options audioBuffer s =
     (let (chain, ctx) = s
      in if enableFades options then
           let (fader, ctx) = createGain ctx;
               ctx = setValueAtTime fader ''gain'' 0 0 ctx;
               ctx = linearRampToValueAtTime fader ''gain'' 1 0.8 ctx;
               fadeOutStart = max 0 (duration audioBuffer - 3.0);
               ctx = setValueAtTime fader ''gain'' 1 fadeOutStart ctx;
               ctx = linearRampToValueAtTime fader ''gain'' 0 (duration audioBuffer) ctx;
               ctx = connect chain fader ctx
           in (fader, ctx)
         else (chain, ctx))"

text \<open>The whole run: from \<^verbatim>\<open>createBufferSource\<close> to \<^verbatim>\<open>source.start()\<close>. It returns
  the last value of \<^verbatim>\<open>chain\<close>, the node connected to the destination.\<close>

definition mastering_graph ::
  "AudioBuffer \<Rightarrow> AudioProcessOptions \<Rightarrow> OfflineAudioContext \<Rightarrow> nat \<times> OfflineAudioContext" where
  "mastering_graph audioBuffer options offlineCtx =
     (let cfg = config options;
          (source, ctx) = createBufferSource offlineCtx;
          ctx = call (SetBuffer source audioBuffer) ctx;
          (chain, ctx) =
            fades options audioBuffer
              (final_leveling cfg
                (gain_smoothing options
                  (soft_envelope cfg
                    (tonal_shaping options
                      (naturalizer options
                        (creative_fx_layer options
                          (chain_start cfg source ctx)))))));
          ctx = connect chain destination ctx;
          ctx = start source ctx
      in (chain, ctx))"

section \<open>The platform\<close>

text \<open>
  Reading a file, decoding it, rendering a graph and reading a blob as a data URL are
  the platform's work, and each can fail. They are parameters of the model. A renderer
  gives the sample of every channel and frame; \<^verbatim>\<open>startRendering\<close> puts them in a
  buffer of the context's channel count, length and rate.
\<close>

text \<open>What a \<^verbatim>\<open>FileReader\<close> ends with: \<^verbatim>\<open>onload\<close> with a result that is a string or is
  not one, or \<^verbatim>\<open>onerror\<close>.\<close>

datatype reader_outcome = Loaded "string option" | ReaderError

record 'f platform =
  file_arrayBuffer :: "'f \<Rightarrow> error + byte list"
  decodeAudioData :: "byte list \<Rightarrow> error + AudioBuffer"
  render :: "OfflineAudioContext \<Rightarrow> error + (nat \<Rightarrow> nat \<Rightarrow> number)"
  readAsDataURL :: "Blob \<Rightarrow> reader_outcome"

definition startRendering :: "'f platform \<Rightarrow> OfflineAudioContext \<Rightarrow> error + AudioBuffer" where
  "startRendering p ctx =
     (case render p ctx of
        Inl e \<Rightarrow> Inl e
      | Inr f \<Rightarrow>
          Inr \<lparr>sampleRate = ctx_sampleRate ctx, frames = ctx_length ctx,
               channelData = map (\<lambda>c. map (f c) [0..<ctx_length ctx]) [0..<ctx_channels ctx]\<rparr>)"

text \<open>An exception inside an encoder rejects the promise of the function that called
  it.\<close>

definition encoded :: "Blob option \<Rightarrow> error + Blob" where
  "encoded r = (case r of None \<Rightarrow> Inl EncoderException | Some blob \<Rightarrow> Inr blob)"

section \<open>The perceptual encoder adapter\<close>

text \<open>The codec (\<^verbatim>\<open>Mp3Encoder\<close> of lamejs) is a parameter: a constructor, the streaming
  encode call, whose right block is absent when \<^verbatim>\<open>undefined\<close> is passed, and the flush.\<close>

record 's Mp3Encoder =
  new_Mp3Encoder :: "nat \<Rightarrow> nat \<Rightarrow> nat \<Rightarrow> 's"
  encodeBuffer :: "'s \<Rightarrow> 16 word list \<Rightarrow> 16 word list option \<Rightarrow> byte list \<times> 's"
  flush :: "'s \<Rightarrow> byte list \<times> 's"

text \<open>\<^verbatim>\<open>subarray(begin, end)\<close> for \<open>begin\<close> within the array: the end is clamped.\<close>

definition subarray :: "'a list \<Rightarrow> nat \<Rightarrow> nat \<Rightarrow> 'a list" where
  "subarray xs from to = take (to - from) (drop from xs)"

function mp3_blocks ::
  "'s Mp3Encoder \<Rightarrow> nat \<Rightarrow> 16 word list \<Rightarrow> 16 word list \<Rightarrow> nat \<Rightarrow> byte list list \<times> 's
   \<Rightarrow> byte list list \<times> 's" where
  "mp3_blocks codec channels leftInt16 rightInt16 i (mp3Data, mp3encoder) =
     (let sampleBlockSize = 1152
      in if i < length leftInt16 then
           let leftChunk = subarray leftInt16 i (i + sampleBlockSize);
               rightChunk = (if channels > 1
                             then Some (subarray rightInt16 i (i + sampleBlockSize)) else None);
               (mp3buf, mp3encoder) = encodeBuffer codec mp3encoder leftChunk rightChunk;
               mp3Data = (if length mp3buf > 0 then mp3Data @ [mp3buf] else mp3Data)
           in mp3_blocks codec channels leftInt16 rightInt16 (i + sampleBlockSize)
                (mp3Data, mp3encoder)
         else (mp3Data, mp3encoder))"
  by pat_completeness auto
termination
  by (relation "measure (\<lambda>(codec, channels, leftInt16, rightInt16, i, s). length leftInt16 - i)")
    auto

declare mp3_blocks.simps [simp del]

definition audioBufferToMp3 :: "'s Mp3Encoder \<Rightarrow> AudioBuffer \<Rightarrow> Blob option" where
  "audioBufferToMp3 codec buffer = do {
     let channels = numberOfChannels buffer;
     let sampleRate = sampleRate buffer;
     let kbps = 320;
     let mp3encoder = new_Mp3Encoder codec channels sampleRate kbps;
     samplesLeft \<leftarrow> getChannelData buffer 0;
     samplesRight \<leftarrow> (if channels > 1 then getChannelData buffer 1 else Some samplesLeft);
     let n = length samplesLeft;
     let leftInt16 = replicate n 0;
     let rightInt16 = replicate n 0;
     let (leftInt16, rightInt16) =
       fold (\<lambda>i (leftInt16, rightInt16).
         let l = math_max (Fin (- 0.95)) (math_min (Fin 0.95) (f32_at samplesLeft i));
             leftInt16 = leftInt16[i := to_int16 (if is_neg l then scale l 32768 else scale l 32767)];
             rightInt16 =
               (if channels > 1 then
                  let r = math_max (Fin (- 0.95)) (math_min (Fin 0.95) (f32_at samplesRight i))
                  in rightInt16[i := to_int16 (if is_neg r then scale r 32768 else scale r 32767)]
                else rightInt16)
         in (leftInt16, rightInt16)) [0..<n] (leftInt16, rightInt16);
     let (mp3Data, mp3encoder) = mp3_blocks codec channels leftInt16 rightInt16 0 ([], mp3encoder);
     let (mp3buf, mp3encoder) = flush codec mp3encoder;
     let mp3Data = (if length mp3buf > 0 then mp3Data @ [mp3buf] else mp3Data);
     Some \<lparr>bytes = concat mp3Data, mime = ''audio/mp3''\<rparr>
   }"

section \<open>The mastering entry point\<close>

definition processAudio ::
  "'f platform \<Rightarrow> 's Mp3Encoder \<Rightarrow> 'f \<Rightarrow> AudioProcessOptions \<Rightarrow> error + Blob" where
  "processAudio p codec file options =
     (case file_arrayBuffer p file of
        Inl e \<Rightarrow> Inl e
      | Inr arrayBuffer \<Rightarrow>
     (case decodeAudioData p arrayBuffer of
        Inl e \<Rightarrow> Inl e
      | Inr audioBuffer \<Rightarrow>
     (let TARGET_SAMPLE_RATE = 48000;
          lengthInFrames = nat \<lceil>duration audioBuffer * real TARGET_SAMPLE_RATE\<rceil>
      in case new_OfflineAudioContext 2 lengthInFrames TARGET_SAMPLE_RATE of
           Inl e \<Rightarrow> Inl e
         | Inr offlineCtx \<Rightarrow>
        (let (chain, ctx) = mastering_graph audioBuffer options offlineCtx
         in case startRendering p ctx of
              Inl e \<Rightarrow> Inl e
            | Inr renderedBuffer \<Rightarrow>
                if exportFormat options = Wav then encoded (audioBufferToWav renderedBuffer)
                else encoded (audioBufferToMp3 codec renderedBuffer)))))"

section \<open>The analysis pre-processor\<close>

text \<open>\<^verbatim>\<open>s.split(',')\<close>, and element 1 of the result (\<open>None\<close> is \<^verbatim>\<open>undefined\<close>).\<close>

fun split_comma :: "string \<Rightarrow> string list" where
  "split_comma [] = [[]]"
| "split_comma (c # cs) =
     (if c = CHR '','' then [] # split_comma cs
      else (case split_comma cs of [] \<Rightarrow> [[c]] | w # ws \<Rightarrow> (c # w) # ws))"

definition element1 :: "'a list \<Rightarrow> 'a option" where
  "element1 xs = (if 1 < length xs then Some (xs ! 1) else None)"

text \<open>The part of \<^verbatim>\<open>optimizeAudioForAnalysis\<close> from the analysis settings to
  \<^verbatim>\<open>source.start()\<close>: the low-resolution context and its one connection.\<close>

definition analysis_graph :: "AudioBuffer \<Rightarrow> error + OfflineAudioContext" where
  "analysis_graph audioBuffer =
     (let TARGET_SAMPLE_RATE = 16000;
          MAX_DURATION = 180;
          duration = min (duration audioBuffer) MAX_DURATION;
          lengthInFrames = nat \<lfloor>duration * real TARGET_SAMPLE_RATE\<rfloor>
      in case new_OfflineAudioContext 1 lengthInFrames TARGET_SAMPLE_RATE of
           Inl e \<Rightarrow> Inl e
         | Inr offlineCtx \<Rightarrow>
             (let (source, ctx) = createBufferSource offlineCtx;
                  ctx = call (SetBuffer source audioBuffer) ctx;
                  ctx = connect source destination ctx;
                  ctx = start source ctx
              in Inr ctx))"

definition optimizeAudioForAnalysis :: "'f platform \<Rightarrow> 'f \<Rightarrow> error + string option" where
  "optimizeAudioForAnalysis p originalFile =
     (case file_arrayBuffer p originalFile of
        Inl e \<Rightarrow> Inl e
      | Inr arrayBuffer \<Rightarrow>
     (case decodeAudioData p arrayBuffer of
        Inl e \<Rightarrow> Inl e
      | Inr audioBuffer \<Rightarrow>
     (case analysis_graph audioBuffer of
        Inl e \<Rightarrow> Inl e
      | Inr ctx \<Rightarrow>
     (case startRendering p ctx of
        Inl e \<Rightarrow> Inl e
      | Inr renderedBuffer \<Rightarrow>
     (case encoded (bufferToWavBlob renderedBuffer) of
        Inl e \<Rightarrow> Inl e
      | Inr wavBlob \<Rightarrow>
     (case readAsDataURL p wavBlob of
        ReaderError \<Rightarrow> Inl ProgressEvent
      | Loaded None \<Rightarrow> Inl (Error ''Failed to encode optimized audio'')
      | Loaded (Some result) \<Rightarrow> Inr (element1 (split_comma result))))))))"

section \<open>Parameter automation\<close>









section \<open>Notions used to state the encoders' output\<close>

text \<open>The bytes of an ASCII string; a buffer whose first bytes are written and whose last
  \<open>k\<close> bytes are still zero; and a loop body that appends given bytes at the current
  offset of such a buffer.\<close>

definition ascii :: "string \<Rightarrow> byte list" where
  "ascii s = map (\<lambda>c. word_of_nat (of_char c)) s"

definition filled :: "byte list \<Rightarrow> nat \<Rightarrow> view" where
  "filled pre k = pre @ replicate k 0"

definition emits :: "(view \<times> nat \<Rightarrow> (view \<times> nat) option) \<Rightarrow> byte list \<Rightarrow> bool" where
  "emits f bs \<longleftrightarrow>
     (\<forall>pre k. length bs \<le> k \<longrightarrow>
        f (filled pre k, length pre) = Some (filled (pre @ bs) (k - length bs), length pre + length bs))"

text \<open>The conversion that \<open>audioBufferToWav\<close> and \<open>audioBufferToMp3\<close> apply to one
  sample, the 44-byte header for given channel count, rate and data length, and the
  data section of \<open>audioBufferToWav\<close>: frame by frame, channel by channel.\<close>

definition pcm_sample :: "number \<Rightarrow> 16 word" where
  "pcm_sample x =
     (let s = math_max (Fin (- 0.95)) (math_min (Fin 0.95) x)
      in to_int16 (if is_neg s then scale s 32768 else scale s 32767))"

definition wav_header :: "nat \<Rightarrow> nat \<Rightarrow> nat \<Rightarrow> byte list" where
  "wav_header nc sr len =
     ascii ''RIFF'' @ u32le (36 + len) @ ascii ''WAVE'' @ ascii ''fmt '' @ u32le 16 @
     u16le 1 @ u16le nc @ u32le sr @ u32le (sr * (nc * 2)) @ u16le (nc * 2) @ u16le 16 @
     ascii ''data'' @ u32le len"

definition wav_frame :: "AudioBuffer \<Rightarrow> nat \<Rightarrow> byte list" where
  "wav_frame b i =
     concat (map (\<lambda>c. i16le (pcm_sample (f32_at (channelData b ! c) i))) [0..<numberOfChannels b])"

definition wav_data :: "AudioBuffer \<Rightarrow> byte list" where
  "wav_data b = concat (map (wav_frame b) [0..<length (channelData b ! 0)])"

text \<open>The same for \<open>bufferToWavBlob\<close>, which clamps to \<open>[-1, 1]\<close> and reads channel 0
  only.\<close>

definition wav_sample :: "number \<Rightarrow> 16 word" where
  "wav_sample x =
     (let s = math_max (Fin (- 1)) (math_min (Fin 1) x)
      in to_int16 (if is_neg s then scale s 32768 else scale s 32767))"

definition mono_data :: "AudioBuffer \<Rightarrow> byte list" where
  "mono_data b = concat (map (\<lambda>i. i16le (wav_sample (f32_at (channelData b ! 0) i)))
                     [0..<length (channelData b ! 0)])"

text \<open>
  The conversion in the words of the specification, on numbers: clamp to
  \<open>[-0.95, 0.95]\<close>, multiply a negative value by 32768 and any other by 32767, truncate
  towards zero. An infinity is clamped like any other value; NaN, on which the
  specification is silent, gives 0 as in the program.
\<close>

definition pcm_value :: "number \<Rightarrow> int" where
  "pcm_value x =
     (case x of
        NaN \<Rightarrow> 0
      | PInf \<Rightarrow> trunc (0.95 * 32767)
      | NInf \<Rightarrow> trunc (- 0.95 * 32768)
      | Fin r \<Rightarrow> (let s = max (- 0.95) (min 0.95 r)
                  in trunc (if s < 0 then s * 32768 else s * 32767)))"



section \<open>Notions of the specification\<close>




text \<open>What the graph calls other than automation leave alone: the shape of the context
  and the automation calls made so far.\<close>

fun is_automation :: "graph_call \<Rightarrow> bool" where
  "is_automation (SetValueAtTime n param v t) = True"
| "is_automation (LinearRampToValueAtTime n param v t) = True"
| "is_automation c = False"

definition frame :: "OfflineAudioContext \<Rightarrow> nat \<times> nat \<times> nat \<times> graph_call list" where
  "frame ctx = (ctx_channels ctx, ctx_length ctx, ctx_sampleRate ctx, filter is_automation (calls ctx))"

text \<open>The options the enhancer's form starts with, and a platform and a codec to run the
  model on: every file decodes to the given buffer, every render is silence, a blob
  reads as an empty data URL, and the codec emits nothing.\<close>

definition initial_options :: AudioProcessOptions where
  "initial_options =
     \<lparr>intensity = Medium, stereoWidth = Normal, enableWarmth = True, enableFades = True,
      enableNaturalizer = True, exportFormat = Mp3, preset = Some Balanced,
      creativeFx = \<lparr>chorus = 0, phaser = 0, flanger = 0\<rparr>\<rparr>"


definition null_codec :: "unit Mp3Encoder" where
  "null_codec =
     \<lparr>new_Mp3Encoder = (\<lambda>channels rate kbps. ()),
      encodeBuffer = (\<lambda>s left right. ([], s)),
      flush = (\<lambda>s. ([], s))\<rparr>"

definition silence :: "nat \<Rightarrow> nat \<Rightarrow> nat \<Rightarrow> AudioBuffer" where
  "silence n_channels rate n =
     \<lparr>sampleRate = rate, frames = n, channelData = replicate n_channels (replicate n (Fin 0))\<rparr>"

text \<open>Two platforms that fail with the same exception, one in the decoder and one in the
  renderer.\<close>

definition failing_decoder :: "unit platform" where
  "failing_decoder =
     \<lparr>file_arrayBuffer = (\<lambda>f. Inr []),
      decodeAudioData = (\<lambda>bs. Inl (DOMException ''EncodingError'')),
      render = (\<lambda>ctx. Inr (\<lambda>c i. Fin 0)),
      readAsDataURL = (\<lambda>blob. Loaded (Some ''data:audio/wav;base64,''))\<rparr>"

definition failing_renderer :: "AudioBuffer \<Rightarrow> unit platform" where
  "failing_renderer b =
     \<lparr>file_arrayBuffer = (\<lambda>f. Inr []), decodeAudioData = (\<lambda>bs. Inr b),
      render = (\<lambda>ctx. Inl (DOMException ''EncodingError'')),
      readAsDataURL = (\<lambda>blob. Loaded (Some ''data:audio/wav;base64,''))\<rparr>"

text \<open>The arguments of the successive \<^verbatim>\<open>encodeBuffer\<close> calls, from sample \<open>i\<close> on: blocks
  of up to 1152 samples of the converted left channel, each with the matching block of
  the right channel when the buffer has more than one channel.\<close>

function block_calls ::
  "nat \<Rightarrow> 16 word list \<Rightarrow> 16 word list \<Rightarrow> nat \<Rightarrow> (16 word list \<times> 16 word list option) list" where
  "block_calls n_channels left right i =
     (if i < length left
      then (take 1152 (drop i left),
            if 1 < n_channels then Some (take 1152 (drop i right)) else None)
           # block_calls n_channels left right (i + 1152)
      else [])"
  by pat_completeness auto
termination
  by (relation "measure (\<lambda>(n_channels, left, right, i). length left - i)") auto

declare block_calls.simps [simp del]

text \<open>Running the codec over a list of calls: the chunks it emits, concatenated, and its
  state afterwards.\<close>

fun feed ::
  "'s Mp3Encoder \<Rightarrow> 's \<Rightarrow> (16 word list \<times> 16 word list option) list \<Rightarrow> byte list \<times> 's" where
  "feed codec st [] = ([], st)"
| "feed codec st ((left, right) # cs) =
     (let (buf, st) = encodeBuffer codec st left right;
          (rest, st) = feed codec st cs
      in (buf @ rest, st))"

text \<open>A codec that reports what it is given: for each call the length of the left block
  and whether a right block came with it.\<close>

definition probe_codec :: "unit Mp3Encoder" where
  "probe_codec =
     \<lparr>new_Mp3Encoder = (\<lambda>channels rate kbps. ()),
      encodeBuffer = (\<lambda>s left right.
        ([word_of_nat (length left), (case right of None \<Rightarrow> 0 | Some r \<Rightarrow> 1)], s)),
      flush = (\<lambda>s. ([], s))\<rparr>"

text \<open>The converted channels: the 16-bit conversion of the PCM encoder on every sample of
  channel 0, and of channel 1 when there is one.\<close>

definition mp3_left :: "AudioBuffer \<Rightarrow> 16 word list" where
  "mp3_left b = map pcm_sample (channelData b ! 0)"

definition mp3_right :: "AudioBuffer \<Rightarrow> 16 word list" where
  "mp3_right b = (if 1 < numberOfChannels b then map pcm_sample (channelData b ! 1) else [])"

section \<open>Properties of the PCM encoders: layout and sample conversion\<close>

lemma new_view_filled: "new_view n = filled [] n"
  by (simp add: new_view_def filled_def)

lemma setBytes_filled:
  "off = length pre \<Longrightarrow> length bs \<le> k \<Longrightarrow>
   setBytes (filled pre k) off bs = Some (filled (pre @ bs) (k - length bs))"
  by (simp add: setBytes_def filled_def)

lemma length_u16le [simp]: "length (u16le n) = 2"
  by (simp add: u16le_def Let_def)

lemma length_u32le [simp]: "length (u32le n) = 4"
  by (simp add: u32le_def Let_def)

lemma length_i16le [simp]: "length (i16le w) = 2"
  by (simp add: i16le_def)

lemma length_ascii [simp]: "length (ascii s) = length s"
  by (simp add: ascii_def)

lemma writeString_filled:
  "off = length pre \<Longrightarrow> length s \<le> k \<Longrightarrow>
   writeString (filled pre k) off s = Some (filled (pre @ ascii s) (k - length s))"
proof (induction s arbitrary: pre k off)
  case Nil
  then show ?case by (simp add: ascii_def)
next
  case (Cons c cs)
  have "setUint8 (filled pre k) off (of_char c) = Some (filled (pre @ [word_of_nat (of_char c)]) (k - 1))"
    using Cons.prems by (simp add: setUint8_def setBytes_filled)
  moreover have "writeString (filled (pre @ [word_of_nat (of_char c)]) (k - 1)) (off + 1) cs
      = Some (filled ((pre @ [word_of_nat (of_char c)]) @ ascii cs) (k - 1 - length cs))"
    using Cons.prems by (intro Cons.IH) simp_all
  ultimately show ?case by (simp add: ascii_def)
qed

lemma emits_for_loop:
  "(\<And>i. i \<in> set is \<Longrightarrow> emits (body i) (g i)) \<Longrightarrow> emits (for_loop is body) (concat (map g is))"
proof (induction "is")
  case Nil
  show ?case by (simp add: emits_def)
next
  case (Cons i "is")
  have hd: "emits (body i) (g i)" using Cons.prems by simp
  have tl: "emits (for_loop is body) (concat (map g is))" using Cons by simp
  show ?case
    unfolding emits_def
  proof (intro allI impI)
    fix pre k
    assume len: "length (concat (map g (i # is))) \<le> k"
    then have l1: "length (g i) \<le> k" and l2: "length (concat (map g is)) \<le> k - length (g i)"
      by simp_all
    have s1: "body i (filled pre k, length pre) = Some (filled (pre @ g i) (k - length (g i)), length pre + length (g i))"
      using hd l1 by (simp add: emits_def)
    have s2: "for_loop is body (filled (pre @ g i) (k - length (g i)), length (pre @ g i))
        = Some (filled ((pre @ g i) @ concat (map g is)) (k - length (g i) - length (concat (map g is))),
                length (pre @ g i) + length (concat (map g is)))"
      using tl l2 unfolding emits_def by blast
    show "for_loop (i # is) body (filled pre k, length pre) =
        Some (filled (pre @ concat (map g (i # is))) (k - length (concat (map g (i # is)))),
              length pre + length (concat (map g (i # is))))"
      using s1 s2 by (simp add: add.assoc)
  qed
qed

lemma length_wav_header [simp]: "length (wav_header nc sr len) = 44"
  by (simp add: wav_header_def)

lemma length_concat_const:
  "(\<And>x. x \<in> set xs \<Longrightarrow> length (g x) = k) \<Longrightarrow> length (concat (map g xs)) = length xs * k"
  by (induction xs) simp_all

lemma length_wav_frame [simp]: "length (wav_frame b i) = numberOfChannels b * 2"
  by (simp add: wav_frame_def length_concat_const)

lemma length_wav_data [simp]:
  "length (wav_data b) = length (channelData b ! 0) * (numberOfChannels b * 2)"
  by (simp add: wav_data_def length_concat_const)

lemma filled_0 [simp]: "filled pre 0 = pre"
  by (simp add: filled_def)

lemma emits_sample:
  assumes "c < numberOfChannels b"
  shows "emits (\<lambda>(view, offset). do {
           chan \<leftarrow> getChannelData b c;
           let sample = f32_at chan i;
           let s = math_max (Fin (- 0.95)) (math_min (Fin 0.95) sample);
           let s = (if is_neg s then scale s 32768 else scale s 32767);
           view \<leftarrow> setInt16 view offset s;
           Some (view, offset + 2)
         }) (i16le (pcm_sample (f32_at (channelData b ! c) i)))"
  using assms
  by (simp add: emits_def getChannelData_def setInt16_def setBytes_filled pcm_sample_def Let_def)

lemma audioBufferToWav_bytes:
  assumes "channelData b \<noteq> []"
  shows "audioBufferToWav b =
     Some \<lparr>bytes = wav_header (numberOfChannels b) (sampleRate b)
                     (length (channelData b ! 0) * (numberOfChannels b * 2)) @ wav_data b,
           mime = ''audio/wav''\<rparr>"
proof -
  let ?nc = "numberOfChannels b"
  let ?n = "length (channelData b ! 0)"
  let ?H = "wav_header ?nc (sampleRate b) (?n * (?nc * 2))"
  define body where "body = (\<lambda>i. for_loop [0..<?nc] (\<lambda>channel (view, offset). do {
           chan \<leftarrow> getChannelData b channel;
           let sample = f32_at chan i;
           let s = math_max (Fin (- 0.95)) (math_min (Fin 0.95) sample);
           let s = (if is_neg s then scale s 32768 else scale s 32767);
           view \<leftarrow> setInt16 view offset s;
           Some (view, offset + 2)
         }))"
  have ch0: "getChannelData b 0 = Some (channelData b ! 0)"
    using assms by (simp add: getChannelData_def numberOfChannels_def)
  have inner: "emits (body i) (wav_frame b i)" for i
    unfolding wav_frame_def body_def by (rule emits_for_loop, rule emits_sample, simp)
  have outer: "emits (for_loop [0..<?n] body) (wav_data b)"
    unfolding wav_data_def by (rule emits_for_loop) (rule inner)
  have loop: "for_loop [0..<?n] body (filled H (?n * (?nc * 2)), 44)
      = Some (H @ wav_data b, 44 + ?n * (?nc * 2))" if "length H = 44" for H
    using outer[unfolded emits_def, rule_format, of "?n * (?nc * 2)" H] that by simp
  show ?thesis
    unfolding audioBufferToWav_def Let_def body_def[unfolded Let_def, symmetric]
    by (simp add: ch0 new_view_filled writeString_filled setBytes_filled
        setUint32_def setUint16_def loop wav_header_def mult.assoc
        del: writeString.simps)
qed

lemma length_mono_data [simp]: "length (mono_data b) = length (channelData b ! 0) * 2"
  by (simp add: mono_data_def length_concat_const)

lemma bufferToWavBlob_bytes:
  assumes "channelData b \<noteq> []"
  shows "bufferToWavBlob b =
     Some \<lparr>bytes = wav_header 1 (sampleRate b) (length (channelData b ! 0) * 2) @ mono_data b,
           mime = ''audio/wav''\<rparr>"
proof -
  let ?data = "channelData b ! 0"
  let ?n = "length ?data"
  define body where "body = (\<lambda>i (view, offset). do {
         let s = math_max (Fin (- 1)) (math_min (Fin 1) (f32_at ?data i));
         let val = (if is_neg s then scale s 32768 else scale s 32767);
         view \<leftarrow> setInt16 view offset val;
         Some (view, offset + 2)
       })"
  have ch0: "getChannelData b 0 = Some ?data"
    using assms by (simp add: getChannelData_def numberOfChannels_def)
  have inner: "emits (body i) (i16le (wav_sample (f32_at ?data i)))" for i
    by (simp add: body_def emits_def setInt16_def setBytes_filled wav_sample_def Let_def)
  have outer: "emits (for_loop [0..<?n] body) (mono_data b)"
    unfolding mono_data_def by (rule emits_for_loop) (rule inner)
  have loop: "for_loop [0..<?n] body (filled H (?n * 2), 44)
      = Some (H @ mono_data b, 44 + ?n * 2)" if "length H = 44" for H
    using outer[unfolded emits_def, rule_format, of "?n * 2" H] that by simp
  show ?thesis
    unfolding bufferToWavBlob_def Let_def ch0 Option.bind.simps body_def[unfolded Let_def, symmetric]
    by (simp add: new_view_filled writeString_filled setBytes_filled
        setUint32_def setUint16_def loop wav_header_def mult.assoc
        del: writeString.simps)
qed

lemma pcm_value_Fin:
  "pcm_value (Fin r) =
     (if max (- 0.95) (min 0.95 r) < 0 then \<lceil>max (- 0.95) (min 0.95 r) * 32768\<rceil>
      else \<lfloor>max (- 0.95) (min 0.95 r) * 32767\<rfloor>)"
proof -
  define s where "s = max (- 0.95) (min 0.95 r)"
  have "pcm_value (Fin r) = trunc (if s < 0 then s * 32768 else s * 32767)"
    unfolding pcm_value_def s_def Let_def number.case by (rule refl)
  also have "\<dots> = (if s < 0 then \<lceil>s * 32768\<rceil> else \<lfloor>s * 32767\<rfloor>)"
    by (simp add: trunc_def mult_less_0_iff)
  finally show ?thesis unfolding s_def .
qed

lemma pcm_value_range: "- 31129 \<le> pcm_value x \<and> pcm_value x \<le> 31128"
proof (cases x)
  case (Fin r)
  define s where "s = max (- 0.95) (min 0.95 r)"
  have s: "- 0.95 \<le> s" "s \<le> 0.95" by (simp_all add: s_def)
  have v: "pcm_value x = (if s < 0 then \<lceil>s * 32768\<rceil> else \<lfloor>s * 32767\<rfloor>)"
    unfolding Fin s_def by (rule pcm_value_Fin)
  show ?thesis
  proof (cases "s < 0")
    case True
    then have "- 31129 \<le> \<lceil>s * 32768\<rceil>" "\<lceil>s * 32768\<rceil> \<le> 0"
      using s by (simp_all add: le_ceiling_iff ceiling_le_iff)
    then show ?thesis using True v by simp
  next
    case False
    then have "0 \<le> \<lfloor>s * 32767\<rfloor>" "\<lfloor>s * 32767\<rfloor> \<le> 31128"
      using s by (simp_all add: le_floor_iff floor_le_iff)
    then show ?thesis using False v by simp
  qed
qed (simp_all add: pcm_value_def trunc_def)

lemma sint_word_of_int_16:
  "- 32768 \<le> k \<Longrightarrow> k < 32768 \<Longrightarrow> sint (word_of_int k :: 16 word) = k"
  by (simp add: signed_of_int signed_take_bit_int_eq_self)

lemma pcm_sample_value: "pcm_sample x = word_of_int (pcm_value x)"
proof (cases x)
  case (Fin r)
  define s where "s = max (- 0.95) (min 0.95 r)"
  have "pcm_sample x = to_int16 (if s < 0 then Fin (s * 32768) else Fin (s * 32767))"
    unfolding Fin pcm_sample_def s_def Let_def math_min.simps math_max.simps is_neg.simps
      scale.simps by (rule refl)
  moreover have "pcm_value x = trunc (if s < 0 then s * 32768 else s * 32767)"
    unfolding Fin pcm_value_def s_def Let_def number.case by (rule refl)
  ultimately show ?thesis by simp
qed (simp_all add: pcm_sample_def pcm_value_def Let_def trunc_def)

lemma sint_pcm_sample: "sint (pcm_sample x) = pcm_value x"
  using pcm_value_range[of x] by (simp add: pcm_sample_value sint_word_of_int_16)

lemma word_cat_i16le: "word_cat (ucast (drop_bit 8 w) :: byte) (ucast w :: byte) = (w :: 16 word)"
  by (rule bit_word_eqI) (auto simp: bit_simps)

lemma getInt16_i16le:
  "off + 2 \<le> length v \<Longrightarrow> take 2 (drop off v) = i16le w \<Longrightarrow> getInt16 v off = sint w"
proof -
  assume a: "off + 2 \<le> length v" "take 2 (drop off v) = i16le w"
  have "v ! off = (take 2 (drop off v)) ! 0" using a(1) by simp
  moreover have "v ! (off + 1) = (take 2 (drop off v)) ! 1" using a(1) by simp
  ultimately show ?thesis using a(2) by (simp add: getInt16_def i16le_def word_cat_i16le)
qed

lemma drop_concat_const:
  "(\<And>x. length (g x) = k) \<Longrightarrow> i \<le> length xs \<Longrightarrow>
   drop (i * k) (concat (map g xs)) = concat (map g (drop i xs))"
proof (induction xs arbitrary: i)
  case Nil
  then show ?case by simp
next
  case (Cons a xs)
  show ?case
  proof (cases i)
    case 0
    then show ?thesis by simp
  next
    case (Suc j)
    then show ?thesis using Cons by simp
  qed
qed

lemma drop_block:
  assumes "\<And>x. length (g x) = k" "i < n"
  shows "drop (i * k) (concat (map g [0..<n])) = g i @ concat (map g [Suc i..<n])"
proof -
  have "drop i [0..<n] = [i..<n]" by simp
  also have "\<dots> = i # [Suc i..<n]" using assms(2) by (rule upt_conv_Cons)
  finally show ?thesis
    using drop_concat_const[of g k i "[0..<n]"] assms by simp
qed

lemma block_concat_const:
  assumes "\<And>x. length (g x) = k" "i < n"
  shows "take k (drop (i * k) (concat (map g [0..<n]))) = g i"
proof -
  have "drop i [0..<n] = [i..<n]" by simp
  also have "\<dots> = i # [Suc i..<n]" using assms(2) by (rule upt_conv_Cons)
  finally have "drop (i * k) (concat (map g [0..<n])) = g i @ concat (map g [Suc i..<n])"
    using drop_concat_const[of g k i "[0..<n]"] assms by simp
  then show ?thesis using assms(1) by simp
qed

lemma pcm_value_bounds:
  "- 0.95 * 32768 \<le> real_of_int (pcm_value x) \<and> real_of_int (pcm_value x) \<le> 0.95 * 32767"
proof -
  have "real_of_int (- 31129) \<le> real_of_int (pcm_value x)"
    and "real_of_int (pcm_value x) \<le> real_of_int 31128"
    using pcm_value_range[of x] by (simp_all only: of_int_le_iff)
  then show ?thesis by simp
qed

lemma wav_data_sample:
  assumes "i < length (channelData b ! 0)" "c < numberOfChannels b"
  shows "take 2 (drop (2 * (i * numberOfChannels b + c)) (wav_data b))
         = i16le (pcm_sample (f32_at (channelData b ! c) i))"
proof -
  let ?nc = "numberOfChannels b"
  let ?g = "\<lambda>c. i16le (pcm_sample (f32_at (channelData b ! c) i))"
  have frame: "take 2 (drop (c * 2) (wav_frame b i)) = ?g c"
    unfolding wav_frame_def using assms(2) by (intro block_concat_const) simp_all
  have "drop (i * (?nc * 2)) (wav_data b) = wav_frame b i @ concat (map (wav_frame b) [Suc i..<length (channelData b ! 0)])"
    unfolding wav_data_def using assms(1) by (intro drop_block) simp_all
  then have "drop (c * 2) (drop (i * (?nc * 2)) (wav_data b))
      = drop (c * 2) (wav_frame b i) @ concat (map (wav_frame b) [Suc i..<length (channelData b ! 0)])"
    using assms(2) by simp
  moreover have "2 \<le> length (drop (c * 2) (wav_frame b i))"
    using assms(2) by simp
  ultimately have "take 2 (drop (c * 2) (drop (i * (?nc * 2)) (wav_data b))) = ?g c"
    using frame by simp
  moreover have "c * 2 + i * (?nc * 2) = 2 * (i * ?nc + c)" by (simp add: algebra_simps)
  ultimately show ?thesis by (simp add: add.commute)
qed

lemma wf_buffer_channel:
  "wf_buffer b \<Longrightarrow> c < numberOfChannels b \<Longrightarrow> length (channelData b ! c) = frames b"
  by (simp add: wf_buffer_def numberOfChannels_def list_all_length)

lemma wf_buffer_channels: "wf_buffer b \<Longrightarrow> 0 < numberOfChannels b"
  by (simp add: wf_buffer_def numberOfChannels_def)

text \<open>
  Claim C2. For every well-formed buffer, the 16-bit value that \<open>audioBufferToWav\<close>
  stores for frame \<open>i\<close> of channel \<open>c\<close> (at byte \<open>44 + 2 * (i * numberOfChannels + c)\<close>)
  is the sample clamped to \<open>[-0.95, 0.95]\<close>, multiplied by 32768 when negative and by
  32767 otherwise, and truncated (\<open>pcm_value\<close>); it lies between \<open>-0.95 * 32768\<close> and
  \<open>0.95 * 32767\<close>, so neither full-scale value 32767 nor -32768 is ever emitted.
\<close>

theorem pcm_encoder_headroom:
  assumes "wf_buffer b" "i < frames b" "c < numberOfChannels b"
  shows "\<exists>blob. audioBufferToWav b = Some blob \<and>
           getInt16 (bytes blob) (44 + 2 * (i * numberOfChannels b + c))
             = pcm_value (channelData b ! c ! i) \<and>
           - 0.95 * 32768 \<le> real_of_int (pcm_value (channelData b ! c ! i)) \<and>
           real_of_int (pcm_value (channelData b ! c ! i)) \<le> 0.95 * 32767 \<and>
           pcm_value (channelData b ! c ! i) \<noteq> 32767 \<and>
           pcm_value (channelData b ! c ! i) \<noteq> - 32768"
proof -
  let ?nc = "numberOfChannels b"
  let ?n = "length (channelData b ! 0)"
  let ?H = "wav_header ?nc (sampleRate b) (?n * (?nc * 2))"
  let ?off = "2 * (i * ?nc + c)"
  let ?x = "channelData b ! c ! i"
  have n: "?n = frames b" using assms by (simp add: wf_buffer_channel wf_buffer_channels)
  have lc: "length (channelData b ! c) = frames b" using assms by (simp add: wf_buffer_channel)
  have ne: "channelData b \<noteq> []" using assms(1) by (simp add: wf_buffer_def)
  have enc: "audioBufferToWav b = Some \<lparr>bytes = ?H @ wav_data b, mime = ''audio/wav''\<rparr>"
    using ne by (rule audioBufferToWav_bytes)
  have "i * ?nc + c < frames b * ?nc"
  proof -
    have "i * ?nc + c < i * ?nc + ?nc" using assms(3) by simp
    also have "\<dots> = Suc i * ?nc" by simp
    also have "\<dots> \<le> frames b * ?nc" using assms(2) by (intro mult_le_mono1) simp
    finally show ?thesis .
  qed
  then have fit: "(44 + ?off) + 2 \<le> length (?H @ wav_data b)"
    using n by simp
  have "take 2 (drop (44 + ?off) (?H @ wav_data b)) = take 2 (drop ?off (wav_data b))"
    by simp
  also have "\<dots> = i16le (pcm_sample (f32_at (channelData b ! c) i))"
    using assms n by (intro wav_data_sample) simp_all
  also have "f32_at (channelData b ! c) i = ?x"
    using assms(2) lc by (simp add: f32_at_def)
  finally have "getInt16 (?H @ wav_data b) (44 + ?off) = sint (pcm_sample ?x)"
    using fit by (intro getInt16_i16le)
  then have "getInt16 (?H @ wav_data b) (44 + ?off) = pcm_value ?x"
    by (simp only: sint_pcm_sample)
  moreover have "pcm_value ?x \<noteq> 32767" "pcm_value ?x \<noteq> - 32768"
    using pcm_value_range[of ?x] by simp_all
  ultimately show ?thesis
    using enc pcm_value_bounds[of ?x] by simp
qed

text \<open>Two stereo frames holding \<open>1.0\<close>, \<open>0.5\<close>, \<open>-1.0\<close> and NaN: the data section byte by
  byte, and the four values read back.\<close>

theorem pcm_encoder_headroom_witness:
  "wf_buffer \<lparr>sampleRate = 48000, frames = 2, channelData = [[Fin 1, Fin (- 1)], [Fin 0.5, NaN]]\<rparr> \<and>
   (\<exists>blob. audioBufferToWav
        \<lparr>sampleRate = 48000, frames = 2, channelData = [[Fin 1, Fin (- 1)], [Fin 0.5, NaN]]\<rparr>
        = Some blob \<and>
      drop 44 (bytes blob) = [152, 121, 255, 63, 103, 134, 0, 0] \<and>
      getInt16 (bytes blob) 44 = 31128 \<and> getInt16 (bytes blob) 46 = 16383 \<and>
      getInt16 (bytes blob) 48 = - 31129 \<and> getInt16 (bytes blob) 50 = 0)"
proof -
  let ?b = "\<lparr>sampleRate = 48000, frames = 2, channelData = [[Fin 1, Fin (- 1)], [Fin 0.5, NaN]]\<rparr>"
  have wf: "wf_buffer ?b" by (simp add: wf_buffer_def)
  have data: "wav_data ?b = [152, 121, 255, 63, 103, 134, 0, 0]"
    by (simp add: wav_data_def wav_frame_def numberOfChannels_def f32_at_def pcm_sample_def
        trunc_def i16le_def upt_rec drop_bit_eq_div)
  have "\<exists>H. length H = 44 \<and>
      audioBufferToWav ?b = Some \<lparr>bytes = H @ wav_data ?b, mime = ''audio/wav''\<rparr>"
    using audioBufferToWav_bytes[of ?b] length_wav_header by fastforce
  then obtain H where enc: "length H = 44"
      "audioBufferToWav ?b = Some \<lparr>bytes = H @ wav_data ?b, mime = ''audio/wav''\<rparr>"
    by blast
  show ?thesis
    using wf enc data pcm_encoder_headroom[OF wf, of 0 0] pcm_encoder_headroom[OF wf, of 0 1]
      pcm_encoder_headroom[OF wf, of 1 0] pcm_encoder_headroom[OF wf, of 1 1]
    by (simp add: numberOfChannels_def pcm_value_def trunc_def)
qed









section \<open>Properties of the derived parameters, the effect helpers and the curve\<close>

text \<open>
  Claim C7. Whatever the other options are, the parameters derived from the intensity
  are: headroom trim -20 dB always; threshold -28 dB, ratio 2.5 and makeup gain +15 dB
  for high; threshold -24 dB, ratio 1.5 and makeup gain +13 dB for medium and for low.
\<close>

theorem derived_mastering_parameters:
  "config (options\<lparr>intensity := High\<rparr>)
     = \<lparr>safetyHeadroom = - 20, compThreshold = - 28, compRatio = 2.5, finalGain = 15\<rparr> \<and>
   config (options\<lparr>intensity := Medium\<rparr>)
     = \<lparr>safetyHeadroom = - 20, compThreshold = - 24, compRatio = 1.5, finalGain = 13\<rparr> \<and>
   config (options\<lparr>intensity := Low\<rparr>)
     = \<lparr>safetyHeadroom = - 20, compThreshold = - 24, compRatio = 1.5, finalGain = 13\<rparr>"
  by (simp add: config_def)

text \<open>
  Claim C4. With an intensity of 0 or less, each of \<open>createChorus\<close>, \<open>createPhaser\<close> and
  \<open>createFlanger\<close> returns the input node itself and the context as it was: no node is
  created and no call is made on the graph.
\<close>

theorem effect_bypass:
  assumes "level \<le> 0"
  shows "createChorus ctx input level = (input, ctx) \<and>
         createPhaser ctx input level = (input, ctx) \<and>
         createFlanger ctx input level = (input, ctx)"
  using assms by (simp add: createChorus_def createPhaser_def createFlanger_def)








text \<open>Intensity 0 on a context with three nodes.\<close>

theorem effect_bypass_witness:
  "createChorus \<lparr>ctx_channels = 2, ctx_length = 48000, ctx_sampleRate = 48000, next_id = 3, calls = []\<rparr> 2 0
     = (2, \<lparr>ctx_channels = 2, ctx_length = 48000, ctx_sampleRate = 48000, next_id = 3, calls = []\<rparr>) \<and>
   createPhaser \<lparr>ctx_channels = 2, ctx_length = 48000, ctx_sampleRate = 48000, next_id = 3, calls = []\<rparr> 2 0
     = (2, \<lparr>ctx_channels = 2, ctx_length = 48000, ctx_sampleRate = 48000, next_id = 3, calls = []\<rparr>) \<and>
   createFlanger \<lparr>ctx_channels = 2, ctx_length = 48000, ctx_sampleRate = 48000, next_id = 3, calls = []\<rparr> 2 0
     = (2, \<lparr>ctx_channels = 2, ctx_length = 48000, ctx_sampleRate = 48000, next_id = 3, calls = []\<rparr>)"
  using effect_bypass[of 0 "\<lparr>ctx_channels = 2, ctx_length = 48000, ctx_sampleRate = 48000, next_id = 3, calls = []\<rparr>" 2]
  by simp

section \<open>Properties of the mastering graph: shape, fades and the rendered buffer\<close>































lemma startRendering_ok:
  assumes "render p ctx = Inr f"
  shows "startRendering p ctx =
     Inr \<lparr>sampleRate = ctx_sampleRate ctx, frames = ctx_length ctx,
          channelData = map (\<lambda>c. map (f c) [0..<ctx_length ctx]) [0..<ctx_channels ctx]\<rparr>"
  using assms by (simp add: startRendering_def)







section \<open>Properties of the analysis pre-processor\<close>

lemma analysis_graph_ok:
  assumes "0 < nat \<lfloor>min (duration src) 180 * 16000\<rfloor>"
  shows "\<exists>ctx. analysis_graph src = Inr ctx \<and> ctx_channels ctx = 1 \<and>
           ctx_length ctx = nat \<lfloor>min (duration src) 180 * 16000\<rfloor> \<and> ctx_sampleRate ctx = 16000"
  using assms
  by (simp add: analysis_graph_def new_OfflineAudioContext_def Let_def split_beta
      createBufferSource_def create_def call_def connect_def start_def)

lemma analysis_graph_cases:
  "analysis_graph src = Inl (DOMException ''NotSupportedError'') \<or>
   (\<exists>ctx. analysis_graph src = Inr ctx \<and> ctx_channels ctx = 1 \<and> 0 < ctx_length ctx)"
  by (simp add: analysis_graph_def new_OfflineAudioContext_def Let_def split_beta
      createBufferSource_def create_def call_def connect_def start_def)




lemma wf_silence: "0 < nc \<Longrightarrow> 0 < sr \<Longrightarrow> 0 < n \<Longrightarrow> wf_buffer (silence nc sr n)"
  by (auto simp: silence_def wf_buffer_def list_all_iff)



text \<open>
  Claim C10, as amended. \<open>optimizeAudioForAnalysis\<close> ends in one of these ways. A failure
  to read the file, to decode it, to create the context or to render reaches the caller
  as the very error that was raised; a reader error reaches it as the reader's event; a
  result that is not a string as \<^verbatim>\<open>Error("Failed to encode optimized audio")\<close>. Output is
  returned only when every step succeeded, and then it is the text after the first
  comma of the data URL of the complete WAV blob (header and all
  \<open>2 * frames\<close> data bytes).
\<close>

theorem analysis_failures_propagate:
  "(\<exists>e. file_arrayBuffer p file = Inl e \<and> optimizeAudioForAnalysis p file = Inl e) \<or>
   (\<exists>data e. file_arrayBuffer p file = Inr data \<and> decodeAudioData p data = Inl e \<and>
      optimizeAudioForAnalysis p file = Inl e) \<or>
   (\<exists>data src. file_arrayBuffer p file = Inr data \<and> decodeAudioData p data = Inr src \<and>
      analysis_graph src = Inl (DOMException ''NotSupportedError'') \<and>
      optimizeAudioForAnalysis p file = Inl (DOMException ''NotSupportedError'')) \<or>
   (\<exists>data src ctx e. file_arrayBuffer p file = Inr data \<and> decodeAudioData p data = Inr src \<and>
      analysis_graph src = Inr ctx \<and> render p ctx = Inl e \<and>
      optimizeAudioForAnalysis p file = Inl e) \<or>
   (\<exists>data src ctx rendered wavBlob.
      file_arrayBuffer p file = Inr data \<and> decodeAudioData p data = Inr src \<and>
      analysis_graph src = Inr ctx \<and> startRendering p ctx = Inr rendered \<and>
      bufferToWavBlob rendered = Some wavBlob \<and>
      bytes wavBlob = wav_header 1 (sampleRate rendered) (frames rendered * 2) @ mono_data rendered \<and>
      length (bytes wavBlob) = 44 + frames rendered * 2 \<and>
      (readAsDataURL p wavBlob = ReaderError \<and> optimizeAudioForAnalysis p file = Inl ProgressEvent \<or>
       readAsDataURL p wavBlob = Loaded None \<and>
         optimizeAudioForAnalysis p file = Inl (Error ''Failed to encode optimized audio'') \<or>
       (\<exists>result. readAsDataURL p wavBlob = Loaded (Some result) \<and>
          optimizeAudioForAnalysis p file = Inr (element1 (split_comma result)))))"
proof (cases "file_arrayBuffer p file")
  case (Inl e)
  then show ?thesis by (simp add: optimizeAudioForAnalysis_def)
next
  case data: (Inr data)
  show ?thesis
  proof (cases "decodeAudioData p data")
    case (Inl e)
    then show ?thesis using data by (simp add: optimizeAudioForAnalysis_def)
  next
    case src: (Inr src)
    show ?thesis
    proof (cases "analysis_graph src")
      case (Inl e)
      then have "analysis_graph src = Inl (DOMException ''NotSupportedError'')"
        using analysis_graph_cases[of src] by auto
      then show ?thesis using data src by (simp add: optimizeAudioForAnalysis_def)
    next
      case ctx: (Inr ctx)
      then have shape: "ctx_channels ctx = 1" "0 < ctx_length ctx"
        using analysis_graph_cases[of src] by auto
      show ?thesis
      proof (cases "render p ctx")
        case (Inl e)
        then have "startRendering p ctx = Inl e" by (simp add: startRendering_def)
        then have "optimizeAudioForAnalysis p file = Inl e"
          using data src ctx by (simp add: optimizeAudioForAnalysis_def)
        then show ?thesis using data src ctx Inl by blast
      next
        case (Inr f)
        define rendered where "rendered =
          \<lparr>sampleRate = ctx_sampleRate ctx, frames = ctx_length ctx,
           channelData = map (\<lambda>c. map (f c) [0..<ctx_length ctx]) [0..<ctx_channels ctx]\<rparr>"
        define wavBlob where "wavBlob =
          \<lparr>bytes = wav_header 1 (sampleRate rendered) (frames rendered * 2) @ mono_data rendered,
           mime = ''audio/wav''\<rparr>"
        have r: "startRendering p ctx = Inr rendered"
          unfolding rendered_def by (rule startRendering_ok[OF Inr])
        have ne: "channelData rendered \<noteq> []"
          using shape by (simp add: rendered_def)
        have n: "length (channelData rendered ! 0) = frames rendered"
          using shape by (simp add: rendered_def)
        have w: "bufferToWavBlob rendered = Some wavBlob"
          unfolding wavBlob_def using bufferToWavBlob_bytes[OF ne] n by simp
        have len: "length (bytes wavBlob) = 44 + frames rendered * 2"
          using n by (simp add: wavBlob_def)
        have run: "optimizeAudioForAnalysis p file =
             (case readAsDataURL p wavBlob of
                ReaderError \<Rightarrow> Inl ProgressEvent
              | Loaded None \<Rightarrow> Inl (Error ''Failed to encode optimized audio'')
              | Loaded (Some result) \<Rightarrow> Inr (element1 (split_comma result)))"
          unfolding optimizeAudioForAnalysis_def using data src ctx r w
          by (simp add: encoded_def)
        have "readAsDataURL p wavBlob = ReaderError \<and> optimizeAudioForAnalysis p file = Inl ProgressEvent \<or>
              readAsDataURL p wavBlob = Loaded None \<and>
                optimizeAudioForAnalysis p file = Inl (Error ''Failed to encode optimized audio'') \<or>
              (\<exists>result. readAsDataURL p wavBlob = Loaded (Some result) \<and>
                optimizeAudioForAnalysis p file = Inr (element1 (split_comma result)))"
          unfolding run by (cases "readAsDataURL p wavBlob") (auto split: option.splits)
        moreover have "bytes wavBlob =
            wav_header 1 (sampleRate rendered) (frames rendered * 2) @ mono_data rendered"
          by (simp add: wavBlob_def)
        ultimately show ?thesis using data src ctx r w len by blast
      qed
    qed
  qed
qed

text \<open>
  No dedicated error marks a failure of the pre-processor: a decoder that raises
  EncodingError makes \<open>optimizeAudioForAnalysis\<close> fail with that same value, as it makes
  \<open>processAudio\<close> fail, and a renderer that raises it gives the same value again.
\<close>

theorem analysis_failure_tag_counterexample:
  "optimizeAudioForAnalysis failing_decoder () = Inl (DOMException ''EncodingError'') \<and>
   decodeAudioData failing_decoder [] = Inl (DOMException ''EncodingError'') \<and>
   processAudio failing_decoder null_codec () initial_options = Inl (DOMException ''EncodingError'') \<and>
   optimizeAudioForAnalysis (failing_renderer (silence 2 44100 44100)) ()
     = Inl (DOMException ''EncodingError'')"
proof -
  have "\<exists>ctx. analysis_graph (silence 2 44100 44100) = Inr ctx"
    using analysis_graph_ok[of "silence 2 44100 44100"] by (auto simp: silence_def duration_def)
  then show ?thesis
    by (auto simp: optimizeAudioForAnalysis_def processAudio_def failing_decoder_def
        failing_renderer_def startRendering_def)
qed

section \<open>Properties of the perceptual encoder adapter\<close>

lemma fill_loop:
  assumes "k \<le> length ls" "k \<le> length rs"
  shows "fold (\<lambda>i (ls, rs). (ls[i := gl i], if c then rs[i := gr i] else rs)) [0..<k] (ls, rs)
         = (map gl [0..<k] @ drop k ls, if c then map gr [0..<k] @ drop k rs else rs)"
  using assms
proof (induction k)
  case 0
  show ?case by simp
next
  case (Suc k)
  have l: "(map gl [0..<k] @ drop k ls)[k := gl k] = map gl [0..<k] @ gl k # drop (Suc k) ls"
    using Suc.prems(1) by (simp add: list_update_append upd_conv_take_nth_drop)
  have r: "(map gr [0..<k] @ drop k rs)[k := gr k] = map gr [0..<k] @ gr k # drop (Suc k) rs"
    using Suc.prems(2) by (simp add: list_update_append upd_conv_take_nth_drop)
  show ?case using Suc l r by simp
qed

lemma mp3_blocks_feed:
  "mp3_blocks codec ch ls rs i (acc, st) = (acc', st') \<Longrightarrow>
   concat acc' = concat acc @ fst (feed codec st (block_calls ch ls rs i)) \<and>
   st' = snd (feed codec st (block_calls ch ls rs i))"
proof (induction codec ch ls rs i "(acc, st)" arbitrary: acc st acc' st' rule: mp3_blocks.induct)
  case (1 codec ch ls rs i acc st)
  show ?case
  proof (cases "i < length ls")
    case False
    then have "mp3_blocks codec ch ls rs i (acc, st) = (acc, st)"
      by (subst mp3_blocks.simps) simp
    moreover have "block_calls ch ls rs i = []"
      using False by (subst block_calls.simps) simp
    ultimately show ?thesis using "1.prems" by simp
  next
    case True
    define lc where "lc = subarray ls i (i + 1152)"
    define rc where "rc = (if ch > 1 then Some (subarray rs i (i + 1152)) else None)"
    obtain buf st1 where e: "encodeBuffer codec st lc rc = (buf, st1)" by (cases "encodeBuffer codec st lc rc")
    define acc1 where "acc1 = (if length buf > 0 then acc @ [buf] else acc)"
    have step: "mp3_blocks codec ch ls rs i (acc, st) = mp3_blocks codec ch ls rs (i + 1152) (acc1, st1)"
      using True e by (subst mp3_blocks.simps) (simp add: Let_def lc_def rc_def acc1_def)
    then have rec: "mp3_blocks codec ch ls rs (i + 1152) (acc1, st1) = (acc', st')"
      using "1.prems" by simp
    have IH: "concat acc' = concat acc1 @ fst (feed codec st1 (block_calls ch ls rs (i + 1152))) \<and>
              st' = snd (feed codec st1 (block_calls ch ls rs (i + 1152)))"
      using "1.hyps"[OF refl True lc_def rc_def refl e[symmetric] acc1_def rec]
      by simp
    have c1: "concat acc1 = concat acc @ buf" by (simp add: acc1_def)
    have calls: "block_calls ch ls rs i = (lc, rc) # block_calls ch ls rs (i + 1152)"
      using True by (subst block_calls.simps) (simp add: lc_def rc_def subarray_def)
    show ?thesis
      unfolding calls using IH c1 e by (simp add: split_beta)
  qed
qed


lemma block_calls_mono:
  "\<not> 1 < ch \<Longrightarrow> block_calls ch ls rs i = block_calls ch ls rs' i"
proof (induction ch ls rs i rule: block_calls.induct)
  case (1 ch ls rs i)
  show ?case
  proof (cases "i < length ls")
    case True
    then show ?thesis
      using 1 by (subst block_calls.simps, subst (2) block_calls.simps) simp
  next
    case False
    then show ?thesis by (subst block_calls.simps, subst (2) block_calls.simps) simp
  qed
qed

lemma map_f32_at: "map (\<lambda>i. g (f32_at xs i)) [0..<length xs] = map g xs"
  by (rule nth_equalityI) (simp_all add: f32_at_def)

lemma audioBufferToMp3_run:
  assumes "wf_buffer b"
  shows "audioBufferToMp3 codec b =
     Some \<lparr>bytes =
             fst (feed codec (new_Mp3Encoder codec (numberOfChannels b) (sampleRate b) 320)
                    (block_calls (numberOfChannels b) (mp3_left b) (mp3_right b) 0)) @
             fst (flush codec
               (snd (feed codec (new_Mp3Encoder codec (numberOfChannels b) (sampleRate b) 320)
                      (block_calls (numberOfChannels b) (mp3_left b) (mp3_right b) 0)))),
           mime = ''audio/mp3''\<rparr>"
proof -
  let ?nc = "numberOfChannels b"
  let ?sl = "channelData b ! 0"
  let ?sr = "if 1 < ?nc then channelData b ! 1 else ?sl"
  let ?n = "length ?sl"
  let ?st0 = "new_Mp3Encoder codec ?nc (sampleRate b) 320"
  have nc: "0 < ?nc" using assms by (rule wf_buffer_channels)
  have ch0: "getChannelData b 0 = Some ?sl"
    using nc by (simp add: getChannelData_def)
  have ch1: "(if ?nc > 1 then getChannelData b 1 else Some ?sl) = Some ?sr"
    by (simp add: getChannelData_def)
  have lr: "1 < ?nc \<Longrightarrow> length (channelData b ! 1) = ?n"
    using assms nc by (simp add: wf_buffer_channel)
  define gl where "gl = (\<lambda>i. pcm_sample (f32_at ?sl i))"
  define gr where "gr = (\<lambda>i. pcm_sample (f32_at ?sr i))"
  have conv: "fold (\<lambda>i (leftInt16, rightInt16).
         let l = math_max (Fin (- 0.95)) (math_min (Fin 0.95) (f32_at ?sl i));
             leftInt16 = leftInt16[i := to_int16 (if is_neg l then scale l 32768 else scale l 32767)];
             rightInt16 =
               (if ?nc > 1 then
                  let r = math_max (Fin (- 0.95)) (math_min (Fin 0.95) (f32_at ?sr i))
                  in rightInt16[i := to_int16 (if is_neg r then scale r 32768 else scale r 32767)]
                else rightInt16)
         in (leftInt16, rightInt16)) [0..<?n] (replicate ?n 0, replicate ?n 0)
      = (mp3_left b, if 1 < ?nc then mp3_right b else replicate ?n 0)"
  proof -
    have body: "(\<lambda>i (leftInt16, rightInt16).
         let l = math_max (Fin (- 0.95)) (math_min (Fin 0.95) (f32_at ?sl i));
             leftInt16 = leftInt16[i := to_int16 (if is_neg l then scale l 32768 else scale l 32767)];
             rightInt16 =
               (if ?nc > 1 then
                  let r = math_max (Fin (- 0.95)) (math_min (Fin 0.95) (f32_at ?sr i))
                  in rightInt16[i := to_int16 (if is_neg r then scale r 32768 else scale r 32767)]
                else rightInt16)
         in (leftInt16, rightInt16))
       = (\<lambda>i (ls, rs). (ls[i := gl i], if 1 < ?nc then rs[i := gr i] else rs))"
      unfolding gl_def gr_def pcm_sample_def Let_def by (rule refl)
    have l: "map gl [0..<?n] = mp3_left b"
      unfolding gl_def mp3_left_def by (rule map_f32_at)
    have r: "map gr [0..<?n] = mp3_right b" if "1 < ?nc"
    proof -
      have "map (\<lambda>i. pcm_sample (f32_at (channelData b ! 1) i)) [0..<length (channelData b ! 1)]
          = map pcm_sample (channelData b ! 1)"
        by (rule map_f32_at)
      then show ?thesis using that lr by (simp add: gr_def mp3_right_def)
    qed
    have "fold (\<lambda>i (ls, rs). (ls[i := gl i], if 1 < ?nc then rs[i := gr i] else rs)) [0..<?n]
            (replicate ?n 0, replicate ?n 0)
          = (map gl [0..<?n] @ drop ?n (replicate ?n 0),
             if 1 < ?nc then map gr [0..<?n] @ drop ?n (replicate ?n 0) else replicate ?n 0)"
      by (rule fill_loop) simp_all
    also have "\<dots> = (mp3_left b, if 1 < ?nc then mp3_right b else replicate ?n 0)"
      using l r by (cases "1 < ?nc") simp_all
    finally show ?thesis by (simp only: body)
  qed
  define R where "R = (if 1 < ?nc then mp3_right b else replicate ?n 0)"
  obtain acc st where loop: "mp3_blocks codec ?nc (mp3_left b) R 0 ([], ?st0) = (acc, st)"
    by (cases "mp3_blocks codec ?nc (mp3_left b) R 0 ([], ?st0)")
  have calls: "block_calls ?nc (mp3_left b) R 0 = block_calls ?nc (mp3_left b) (mp3_right b) 0"
    unfolding R_def using block_calls_mono[of ?nc "mp3_left b" "replicate ?n 0" 0 "mp3_right b"]
    by simp
  have fed: "concat acc = fst (feed codec ?st0 (block_calls ?nc (mp3_left b) (mp3_right b) 0))"
      "st = snd (feed codec ?st0 (block_calls ?nc (mp3_left b) (mp3_right b) 0))"
    using mp3_blocks_feed[OF loop] calls by simp_all
  obtain buf st2 where fl: "flush codec st = (buf, st2)" by (cases "flush codec st")
  have "audioBufferToMp3 codec b =
      Some \<lparr>bytes = concat (if length buf > 0 then acc @ [buf] else acc), mime = ''audio/mp3''\<rparr>"
    unfolding audioBufferToMp3_def Let_def ch0 ch1 Option.bind.simps conv[unfolded Let_def]
      split_conv R_def[symmetric] loop fl
    by simp
  also have "concat (if length buf > 0 then acc @ [buf] else acc) = concat acc @ buf"
    by simp
  finally show ?thesis using fed fl by simp
qed


lemma block_calls_left: "concat (map fst (block_calls ch ls rs i)) = drop i ls"
proof (induction ch ls rs i rule: block_calls.induct)
  case (1 ch ls rs i)
  show ?case
  proof (cases "i < length ls")
    case True
    have "take 1152 (drop i ls) @ drop (i + 1152) ls = drop i ls"
      using append_take_drop_id[of 1152 "drop i ls"] by (simp add: add.commute)
    then show ?thesis
      using True "1.IH" by (subst block_calls.simps) simp
  next
    case False
    then show ?thesis by (subst block_calls.simps) simp
  qed
qed

lemma block_calls_step:
  "i < length ls \<Longrightarrow>
   block_calls ch ls rs i =
     (take 1152 (drop i ls), if 1 < ch then Some (take 1152 (drop i rs)) else None)
     # block_calls ch ls rs (i + 1152)"
  by (subst block_calls.simps) simp

lemma block_calls_done: "\<not> i < length ls \<Longrightarrow> block_calls ch ls rs i = []"
  by (subst block_calls.simps) simp

lemma block_calls_right:
  "1 < ch \<Longrightarrow> length rs = length ls \<Longrightarrow>
   concat (map (\<lambda>c. case snd c of None \<Rightarrow> [] | Some r \<Rightarrow> r) (block_calls ch ls rs i)) = drop i rs"
proof (induction ch ls rs i rule: block_calls.induct)
  case (1 ch ls rs i)
  show ?case
  proof (cases "i < length ls")
    case True
    have "take 1152 (drop i rs) @ drop (i + 1152) rs = drop i rs"
      using append_take_drop_id[of 1152 "drop i rs"] by (simp add: add.commute)
    then show ?thesis
      using True "1.IH" "1.prems" by (simp add: block_calls_step)
  next
    case False
    then show ?thesis using "1.prems" by (simp add: block_calls_done)
  qed
qed

lemma block_calls_sizes:
  "list_all (\<lambda>c. 0 < length (fst c) \<and> length (fst c) \<le> 1152) (block_calls ch ls rs i) \<and>
   list_all (\<lambda>c. length (fst c) = 1152) (butlast (block_calls ch ls rs i)) \<and>
   list_all (\<lambda>c. (snd c = None) = (\<not> 1 < ch)) (block_calls ch ls rs i)"
proof (induction ch ls rs i rule: block_calls.induct)
  case (1 ch ls rs i)
  show ?case
  proof (cases "i < length ls")
    case True
    have rest: "block_calls ch ls rs (i + 1152) \<noteq> [] \<Longrightarrow> i + 1152 < length ls"
      using block_calls_done[of "i + 1152" ls ch rs] by blast
    show ?thesis
      using True "1.IH" rest by (auto simp: block_calls_step)
  next
    case False
    then show ?thesis by (simp add: block_calls_done)
  qed
qed


text \<open>
  Claim C9, as amended. For every well-formed buffer, \<open>audioBufferToMp3\<close> returns the
  chunks that the codec emits on the successive blocks, followed by the flush chunk.
  The left blocks are the channel-0 samples under the 16-bit conversion of the PCM
  encoder (\<open>pcm_sample\<close>), cut in order into blocks of 1152 samples, the last one
  possibly shorter and none empty. With two channels every call carries the matching
  block of channel 1, converted the same way; with one channel no right block is passed
  at all.
\<close>

theorem mp3_adapter_blocks:
  assumes "wf_buffer b"
  shows "audioBufferToMp3 codec b =
           Some \<lparr>bytes =
                   fst (feed codec (new_Mp3Encoder codec (numberOfChannels b) (sampleRate b) 320)
                          (block_calls (numberOfChannels b) (mp3_left b) (mp3_right b) 0)) @
                   fst (flush codec
                     (snd (feed codec (new_Mp3Encoder codec (numberOfChannels b) (sampleRate b) 320)
                            (block_calls (numberOfChannels b) (mp3_left b) (mp3_right b) 0)))),
                 mime = ''audio/mp3''\<rparr> \<and>
         concat (map fst (block_calls (numberOfChannels b) (mp3_left b) (mp3_right b) 0))
           = map pcm_sample (channelData b ! 0) \<and>
         list_all (\<lambda>c. 0 < length (fst c) \<and> length (fst c) \<le> 1152)
           (block_calls (numberOfChannels b) (mp3_left b) (mp3_right b) 0) \<and>
         list_all (\<lambda>c. length (fst c) = 1152)
           (butlast (block_calls (numberOfChannels b) (mp3_left b) (mp3_right b) 0)) \<and>
         (if 1 < numberOfChannels b
          then list_all (\<lambda>c. snd c \<noteq> None)
                 (block_calls (numberOfChannels b) (mp3_left b) (mp3_right b) 0) \<and>
               concat (map (\<lambda>c. case snd c of None \<Rightarrow> [] | Some r \<Rightarrow> r)
                 (block_calls (numberOfChannels b) (mp3_left b) (mp3_right b) 0))
                 = map pcm_sample (channelData b ! 1)
          else list_all (\<lambda>c. snd c = None)
                 (block_calls (numberOfChannels b) (mp3_left b) (mp3_right b) 0))"
proof -
  let ?nc = "numberOfChannels b"
  let ?cs = "block_calls ?nc (mp3_left b) (mp3_right b) 0"
  have left: "concat (map fst ?cs) = map pcm_sample (channelData b ! 0)"
    by (simp add: block_calls_left mp3_left_def)
  have sizes: "list_all (\<lambda>c. 0 < length (fst c) \<and> length (fst c) \<le> 1152) ?cs"
      "list_all (\<lambda>c. length (fst c) = 1152) (butlast ?cs)"
      "list_all (\<lambda>c. (snd c = None) = (\<not> 1 < ?nc)) ?cs"
    using block_calls_sizes[of ?nc "mp3_left b" "mp3_right b" 0] by blast+
  have right: "concat (map (\<lambda>c. case snd c of None \<Rightarrow> [] | Some r \<Rightarrow> r) ?cs)
      = map pcm_sample (channelData b ! 1)" if "1 < ?nc"
  proof -
    have "length (channelData b ! 1) = length (channelData b ! 0)"
      using assms that by (simp add: wf_buffer_channel)
    then have "length (mp3_right b) = length (mp3_left b)"
      using that by (simp add: mp3_right_def mp3_left_def)
    from block_calls_right[OF that this, of 0] show ?thesis
      using that by (simp add: mp3_right_def)
  qed
  have tail: "if 1 < ?nc
      then list_all (\<lambda>c. snd c \<noteq> None) ?cs \<and>
           concat (map (\<lambda>c. case snd c of None \<Rightarrow> [] | Some r \<Rightarrow> r) ?cs)
             = map pcm_sample (channelData b ! 1)
      else list_all (\<lambda>c. snd c = None) ?cs"
    using sizes(3) right by (cases "1 < ?nc") simp_all
  show ?thesis
    using audioBufferToMp3_run[OF assms, of codec] left sizes(1,2) tail by simp
qed

text \<open>Two stereo frames through the reporting codec: one call, a left block of 2 samples
  and a right block. And 1153 stereo frames: a call with 1152 samples a side, then a call
  with 1 sample a side.\<close>

theorem mp3_adapter_blocks_witness:
  "wf_buffer \<lparr>sampleRate = 44100, frames = 2, channelData = [[Fin 1, Fin (- 1)], [Fin 0.5, NaN]]\<rparr> \<and>
   audioBufferToMp3 probe_codec
     \<lparr>sampleRate = 44100, frames = 2, channelData = [[Fin 1, Fin (- 1)], [Fin 0.5, NaN]]\<rparr>
     = Some \<lparr>bytes = [2, 1], mime = ''audio/mp3''\<rparr> \<and>
   wf_buffer (silence 2 48000 1153) \<and>
   map (\<lambda>c. (length (fst c), map_option length (snd c)))
     (block_calls 2 (mp3_left (silence 2 48000 1153)) (mp3_right (silence 2 48000 1153)) 0)
     = [(1152, Some 1152), (1, Some 1)]"
proof -
  have a: "wf_buffer (silence 2 48000 1153)" by (simp add: wf_silence)
  have n: "numberOfChannels (silence 2 48000 1153) = 2"
    by (simp add: silence_def numberOfChannels_def)
  have l: "mp3_left (silence 2 48000 1153) = replicate 1153 0"
    by (simp add: mp3_left_def silence_def pcm_sample_def trunc_def nth_replicate word_of_int_0)
  have r: "mp3_right (silence 2 48000 1153) = replicate 1153 0"
    by (simp add: mp3_right_def silence_def pcm_sample_def trunc_def numberOfChannels_def)
  have cs: "block_calls 2 (replicate 1153 0) (replicate 1153 0) 0
      = [(replicate 1152 0, Some (replicate 1152 0)), ([0], Some [0])]"
    by (simp add: block_calls_step block_calls_done)
  show ?thesis
    using mp3_adapter_blocks
      [of "\<lparr>sampleRate = 44100, frames = 2, channelData = [[Fin 1, Fin (- 1)], [Fin 0.5, NaN]]\<rparr>"
          probe_codec]
      mp3_adapter_blocks[OF a, of null_codec] a
    unfolding n l r cs
    by (simp add: wf_buffer_def numberOfChannels_def mp3_left_def mp3_right_def block_calls_step
        block_calls_done probe_codec_def)
qed

text \<open>
  A mono buffer of one sample: the codec is called once, with a left block of 1 sample
  (not 1152) and without a right block (the single channel is not passed twice).
\<close>

theorem mp3_adapter_fixed_blocks_counterexample:
  "wf_buffer \<lparr>sampleRate = 44100, frames = 1, channelData = [[Fin 0.5]]\<rparr> \<and>
   numberOfChannels \<lparr>sampleRate = 44100, frames = 1, channelData = [[Fin 0.5]]\<rparr> = 1 \<and>
   block_calls 1 (mp3_left \<lparr>sampleRate = 44100, frames = 1, channelData = [[Fin 0.5]]\<rparr>)
     (mp3_right \<lparr>sampleRate = 44100, frames = 1, channelData = [[Fin 0.5]]\<rparr>) 0
     = [([16383], None)] \<and>
   audioBufferToMp3 probe_codec \<lparr>sampleRate = 44100, frames = 1, channelData = [[Fin 0.5]]\<rparr>
     = Some \<lparr>bytes = [1, 0], mime = ''audio/mp3''\<rparr>"
proof -
  have wf: "wf_buffer \<lparr>sampleRate = 44100, frames = 1, channelData = [[Fin 0.5]]\<rparr>"
    by (simp add: wf_buffer_def)
  have cs: "block_calls 1 (mp3_left \<lparr>sampleRate = 44100, frames = 1, channelData = [[Fin 0.5]]\<rparr>)
     (mp3_right \<lparr>sampleRate = 44100, frames = 1, channelData = [[Fin 0.5]]\<rparr>) 0
     = [([16383], None)]"
    by (simp add: mp3_left_def mp3_right_def block_calls_step block_calls_done pcm_sample_def
        trunc_def numberOfChannels_def)
  show ?thesis
    using audioBufferToMp3_run[OF wf, of probe_codec] wf cs
    by (simp add: numberOfChannels_def probe_codec_def)
qed

end
